theory Spec2Isabelle
  imports Complex_Main "HOL-Library.AList" "HOL-Library.Word"
begin

unbundle bit_operations_syntax

section \<open>Python primitives\<close>

text \<open>
  Python floats are modelled as \<open>real\<close> (rounding is idealised away), Python integers
  as \<open>int\<close>. Exceptions are values of \<open>py_error\<close>; a function that can raise returns
  \<open>py_error + 'a\<close>.
\<close>

datatype py_error =
    ZeroDivisionError | StructError | ZlibError | DetachedInstanceError | ValueError string

text \<open>\<open>int(x)\<close> on a float truncates toward zero.\<close>

definition py_int :: "real \<Rightarrow> int" where
  "py_int x = (if 0 \<le> x then \<lfloor>x\<rfloor> else \<lceil>x\<rceil>)"

text \<open>\<open>d.get(k, default)\<close> on an optional entry.\<close>

definition get_or :: "'a option \<Rightarrow> 'a \<Rightarrow> 'a" where
  "get_or v d = (case v of None \<Rightarrow> d | Some x \<Rightarrow> x)"

section \<open>shared/constants.py\<close>

definition MAX_LEVEL :: int where "MAX_LEVEL = 150"
definition ATTACK_RANGE_MELEE :: real where "ATTACK_RANGE_MELEE = 2"
definition ATTACK_RANGE_RANGED :: real where "ATTACK_RANGE_RANGED = 15"
definition ATTACK_RANGE_MAGIC :: real where "ATTACK_RANGE_MAGIC = 20"
definition ATTACK_COOLDOWN :: real where "ATTACK_COOLDOWN = 3 / 2"

definition DamageType_PHYSICAL :: int where "DamageType_PHYSICAL = 0"
definition DamageType_MAGICAL :: int where "DamageType_MAGICAL = 1"
definition DamageType_TRUE :: int where "DamageType_TRUE = 2"

definition REINCARNATION_LEVEL_REQUIREMENT :: int where
  "REINCARNATION_LEVEL_REQUIREMENT = 100"
definition MAX_REINCARNATIONS :: int where "MAX_REINCARNATIONS = 10"

definition LEVEL_WEIGHT :: real where "LEVEL_WEIGHT = 3 / 10"
definition KILLS_WEIGHT :: real where "KILLS_WEIGHT = 2 / 10"
definition TERRITORY_WEIGHT :: real where "TERRITORY_WEIGHT = 25 / 100"
definition BOSS_KILLS_WEIGHT :: real where "BOSS_KILLS_WEIGHT = 15 / 100"
definition PLAYTIME_WEIGHT :: real where "PLAYTIME_WEIGHT = 1 / 10"

definition PERK_HP_BONUS :: real where "PERK_HP_BONUS = 50"
definition PERK_MP_BONUS :: real where "PERK_MP_BONUS = 25"
definition PERK_ATTACK_BONUS :: real where "PERK_ATTACK_BONUS = 5"
definition PERK_DEFENSE_BONUS :: real where "PERK_DEFENSE_BONUS = 5"
definition PERK_SPEED_BONUS :: real where "PERK_SPEED_BONUS = 1 / 2"
definition PERK_XP_MULTIPLIER :: real where "PERK_XP_MULTIPLIER = 1 / 10"

definition TERRITORY_CAPTURE_TIME :: real where "TERRITORY_CAPTURE_TIME = 60"
definition MIN_PLAYERS_TO_CAPTURE :: nat where "MIN_PLAYERS_TO_CAPTURE = 1"

definition CHUNK_SIZE :: real where "CHUNK_SIZE = 50"

definition STARTING_LEVEL :: int where "STARTING_LEVEL = 1"
definition STARTING_HP :: int where "STARTING_HP = 100"
definition STARTING_MP :: int where "STARTING_MP = 50"

definition SkillType_HEAL :: int where "SkillType_HEAL = 23"

section \<open>shared/utils.py\<close>

type_synonym vec3 = "real \<times> real \<times> real"

definition calculate_distance :: "vec3 \<Rightarrow> vec3 \<Rightarrow> real" where
  "calculate_distance pos1 pos2 =
     (case pos1 of (x1, y1, z1) \<Rightarrow> case pos2 of (x2, y2, z2) \<Rightarrow>
        let dx = x1 - x2; dy = y1 - y2; dz = z1 - z2
        in sqrt (dx * dx + dy * dy + dz * dz))"

definition clamp :: "real \<Rightarrow> real \<Rightarrow> real \<Rightarrow> real" where
  "clamp v min_val max_val = max min_val (min max_val v)"

text \<open>
  \<open>calculate_damage(attacker_stats, defender_stats, skill_multiplier, damage_type)\<close>.
  The two dictionaries are passed as pairs \<open>(attack, level)\<close> and \<open>(defense, level)\<close>.
  The draw \<open>random.uniform(0.9, 1.1)\<close> is the extra argument \<open>variance\<close>.
  \<open>defense / (defense + 100)\<close> raises \<open>ZeroDivisionError\<close> when \<open>defense = -100\<close>.
\<close>

definition calculate_damage ::
  "int \<times> int \<Rightarrow> int \<times> int \<Rightarrow> real \<Rightarrow> int \<Rightarrow> real \<Rightarrow> py_error + int" where
  "calculate_damage attacker_stats defender_stats skill_multiplier damage_type variance =
     (let base_damage = real_of_int (fst attacker_stats) * skill_multiplier in
      if damage_type = DamageType_TRUE then Inr (py_int base_damage)
      else
        let defense = fst defender_stats in
        if defense + 100 = 0 then Inl ZeroDivisionError
        else
          let damage_reduction = real_of_int defense / real_of_int (defense + 100);
              final_damage = base_damage * (1 - damage_reduction);
              level_diff = snd attacker_stats - snd defender_stats;
              level_modifier = clamp (1 + real_of_int level_diff * (2 / 100)) (1 / 2) (3 / 2);
              final_damage = final_damage * level_modifier;
              final_damage = final_damage * variance
          in Inr (max 1 (py_int final_damage)))"

text \<open>
  \<open>calculate_success_score(character_data)\<close>: the dictionary is a record of optional
  entries; a missing key takes the default of the \<open>.get\<close> call.
\<close>

record character_data =
  cd_level :: "int option"
  cd_total_kills :: "int option"
  cd_territory_control_time :: "int option"
  cd_boss_kills :: "int option"
  cd_playtime :: "int option"

definition calculate_success_score :: "character_data \<Rightarrow> real" where
  "calculate_success_score cd =
     (let level_score = real_of_int (get_or (cd_level cd) 1) / real_of_int MAX_LEVEL;
          kills_score = min (real_of_int (get_or (cd_total_kills cd) 0) / 1000) 1;
          territory_score =
            min (real_of_int (get_or (cd_territory_control_time cd) 0) / 360000) 1;
          boss_kills_score = min (real_of_int (get_or (cd_boss_kills cd) 0) / 50) 1;
          playtime_score = min (real_of_int (get_or (cd_playtime cd) 0) / 720000) 1
      in level_score * LEVEL_WEIGHT + kills_score * KILLS_WEIGHT
         + territory_score * TERRITORY_WEIGHT + boss_kills_score * BOSS_KILLS_WEIGHT
         + playtime_score * PLAYTIME_WEIGHT)"

text \<open>
  \<open>calculate_reincarnation_perks\<close> returns a dictionary with exactly six keys: a record.
  The \<open>int(...)\<close> entries are embedded in \<open>real\<close>. A perk dictionary stored with a
  character (a JSON column, empty by default) is a map from the key to a number.
\<close>

record perk_set =
  hp_bonus :: real
  mp_bonus :: real
  attack_bonus :: real
  defense_bonus :: real
  speed_bonus :: real
  xp_multiplier :: real

type_synonym perks = "string \<rightharpoonup> real"

definition calculate_reincarnation_perks :: "int \<Rightarrow> real \<Rightarrow> perk_set" where
  "calculate_reincarnation_perks reincarnation_count success_score =
     (let multiplier = real_of_int reincarnation_count * success_score in
      \<lparr>hp_bonus = real_of_int (py_int (PERK_HP_BONUS * multiplier)),
       mp_bonus = real_of_int (py_int (PERK_MP_BONUS * multiplier)),
       attack_bonus = real_of_int (py_int (PERK_ATTACK_BONUS * multiplier)),
       defense_bonus = real_of_int (py_int (PERK_DEFENSE_BONUS * multiplier)),
       speed_bonus = PERK_SPEED_BONUS * multiplier,
       xp_multiplier = PERK_XP_MULTIPLIER * multiplier\<rparr>)"

text \<open>\<open>get_chunk_id\<close> reads the x and z coordinates; \<open>int(...)\<close> truncates toward zero.\<close>

definition get_chunk_id :: "vec3 \<Rightarrow> real \<Rightarrow> int \<times> int" where
  "get_chunk_id position chunk_size =
     (case position of (x, y, z) \<Rightarrow> (py_int (x / chunk_size), py_int (z / chunk_size)))"

text \<open>The nested \<open>range(-radius, radius + 1)\<close> loops, outer \<open>dx\<close>, inner \<open>dz\<close>.\<close>

definition get_surrounding_chunks :: "int \<times> int \<Rightarrow> int \<Rightarrow> (int \<times> int) list" where
  "get_surrounding_chunks chunk_id radius =
     concat (map (\<lambda>dx. map (\<lambda>dz. (fst chunk_id + dx, snd chunk_id + dz)) [- radius..radius])
                 [- radius..radius])"

section \<open>server/game_server/world_manager.py\<close>

text \<open>
  The classes \<open>Entity\<close>, \<open>PlayerEntity\<close> and \<open>NPCEntity\<close> are records, the subclasses
  extending the base record. Fields that no modelled operation reads (names, speed,
  game mode, buffs, velocity, loot, the \<open>last_update\<close> time stamp) are left out. The
  fields of \<open>NPCEntity\<close> carry the prefix \<open>npc_\<close>, since a field name belongs to one
  record only.
\<close>

record Entity =
  entity_id :: int
  position :: vec3
  rotation :: real
  chunk_id :: "int \<times> int"

record PlayerEntity = Entity +
  level :: int
  hp :: int
  max_hp :: int
  mp :: int
  max_mp :: int
  attack :: int
  defense :: int
  is_dead :: bool
  last_attack_time :: real

record NPCEntity = Entity +
  npc_level :: int
  npc_hp :: int
  npc_max_hp :: int
  npc_attack :: int
  npc_defense :: int
  npc_spawn_position :: vec3
  npc_last_attack_time :: real

text \<open>The \<open>character_data\<close> dictionary read by \<open>PlayerEntity.__init__\<close>.\<close>

record player_character_data =
  pd_position_x :: "real option"
  pd_position_y :: "real option"
  pd_position_z :: "real option"
  pd_level :: "int option"
  pd_hp :: "int option"
  pd_max_hp :: "int option"
  pd_mp :: "int option"
  pd_max_mp :: "int option"
  pd_attack :: "int option"
  pd_defense :: "int option"

text \<open>The \<open>npc_data\<close> dictionary read by \<open>NPCEntity.__init__\<close>.\<close>

record npc_data =
  nd_level :: "int option"
  nd_hp :: "int option"
  nd_attack :: "int option"
  nd_defense :: "int option"

definition update_position ::
  "real \<Rightarrow> real \<Rightarrow> real \<Rightarrow> real \<Rightarrow> 'a Entity_scheme \<Rightarrow> 'a Entity_scheme" where
  "update_position x y z rot e =
     e\<lparr>position := (x, y, z), rotation := rot,
       chunk_id := get_chunk_id (x, y, z) CHUNK_SIZE\<rparr>"

definition new_PlayerEntity :: "int \<Rightarrow> player_character_data \<Rightarrow> PlayerEntity" where
  "new_PlayerEntity character_id cd =
     (let pos = (get_or (pd_position_x cd) 100, get_or (pd_position_y cd) 0,
                 get_or (pd_position_z cd) 100)
      in \<lparr>entity_id = character_id, position = pos, rotation = 0,
          chunk_id = get_chunk_id pos CHUNK_SIZE,
          level = get_or (pd_level cd) 1,
          hp = get_or (pd_hp cd) 100, max_hp = get_or (pd_max_hp cd) 100,
          mp = get_or (pd_mp cd) 50, max_mp = get_or (pd_max_mp cd) 50,
          attack = get_or (pd_attack cd) 10, defense = get_or (pd_defense cd) 10,
          is_dead = False, last_attack_time = 0\<rparr>)"

definition new_NPCEntity :: "int \<Rightarrow> npc_data \<Rightarrow> vec3 \<Rightarrow> NPCEntity" where
  "new_NPCEntity instance_id nd pos =
     \<lparr>entity_id = instance_id, position = pos, rotation = 0,
      chunk_id = get_chunk_id pos CHUNK_SIZE,
      npc_level = get_or (nd_level nd) 1,
      npc_hp = get_or (nd_hp nd) 100, npc_max_hp = get_or (nd_hp nd) 100,
      npc_attack = get_or (nd_attack nd) 10, npc_defense = get_or (nd_defense nd) 5,
      npc_spawn_position = pos, npc_last_attack_time = 0\<rparr>"

text \<open>
  \<open>PlayerEntity.apply_damage\<close>, \<open>heal\<close>, \<open>restore_mp\<close>, \<open>can_attack\<close> and
  \<open>NPCEntity.apply_damage\<close>. The methods that mutate return the new entity; the
  \<open>apply_damage\<close> methods also return their result.
\<close>

definition apply_damage :: "int \<Rightarrow> PlayerEntity \<Rightarrow> bool \<times> PlayerEntity" where
  "apply_damage damage p =
     (let p1 = p\<lparr>hp := max 0 (hp p - damage)\<rparr>
      in if hp p1 = 0 then (True, p1\<lparr>is_dead := True\<rparr>) else (False, p1))"

definition heal :: "int \<Rightarrow> PlayerEntity \<Rightarrow> PlayerEntity" where
  "heal amount p = p\<lparr>hp := min (max_hp p) (hp p + amount)\<rparr>"

definition restore_mp :: "int \<Rightarrow> PlayerEntity \<Rightarrow> PlayerEntity" where
  "restore_mp amount p = p\<lparr>mp := min (max_mp p) (mp p + amount)\<rparr>"

definition can_attack :: "PlayerEntity \<Rightarrow> real \<Rightarrow> real \<Rightarrow> bool" where
  "can_attack p current_time cooldown = (current_time - last_attack_time p \<ge> cooldown)"

definition npc_apply_damage :: "int \<Rightarrow> NPCEntity \<Rightarrow> bool \<times> NPCEntity" where
  "npc_apply_damage damage n =
     (let n1 = n\<lparr>npc_hp := max 0 (npc_hp n - damage)\<rparr> in (npc_hp n1 = 0, n1))"

text \<open>
  \<open>WorldManager\<close>. The dictionaries \<open>players\<close> and \<open>npcs\<close> are association lists with
  the behaviour of a Python \<open>dict\<close>: assignment to a present key replaces the value in
  place, a new key goes to the end, iteration follows the list. The chunk dictionaries
  are only read by key, so they are maps; a bucket (a Python \<open>set\<close> of ids) is a list
  without repetition. The order in which Python iterates a set is not specified; the
  model takes insertion order, and no property below depends on it.
\<close>

record WorldManager =
  players :: "(int \<times> PlayerEntity) list"
  npcs :: "(int \<times> NPCEntity) list"
  player_chunks :: "(int \<times> int) \<rightharpoonup> int list"
  npc_chunks :: "(int \<times> int) \<rightharpoonup> int list"
  next_npc_instance_id :: int

definition new_WorldManager :: WorldManager where
  "new_WorldManager =
     \<lparr>players = [], npcs = [], player_chunks = Map.empty, npc_chunks = Map.empty,
      next_npc_instance_id = 1\<rparr>"

definition add_to_chunk ::
  "int \<times> int \<Rightarrow> int \<Rightarrow> ((int \<times> int) \<rightharpoonup> int list) \<Rightarrow> ((int \<times> int) \<rightharpoonup> int list)" where
  "add_to_chunk c eid chunk_dict =
     (let s = get_or (chunk_dict c) []
      in chunk_dict(c \<mapsto> (if eid \<in> set s then s else s @ [eid])))"

definition remove_from_chunk ::
  "int \<times> int \<Rightarrow> int \<Rightarrow> ((int \<times> int) \<rightharpoonup> int list) \<Rightarrow> ((int \<times> int) \<rightharpoonup> int list)" where
  "remove_from_chunk c eid chunk_dict =
     (case chunk_dict c of
        None \<Rightarrow> chunk_dict
      | Some s \<Rightarrow>
          let s1 = removeAll eid s
          in if s1 = [] then chunk_dict(c := None) else chunk_dict(c \<mapsto> s1))"

definition get_player :: "WorldManager \<Rightarrow> int \<Rightarrow> PlayerEntity option" where
  "get_player w character_id = map_of (players w) character_id"

definition get_npc :: "WorldManager \<Rightarrow> int \<Rightarrow> NPCEntity option" where
  "get_npc w instance_id = map_of (npcs w) instance_id"

definition get_all_players :: "WorldManager \<Rightarrow> PlayerEntity list" where
  "get_all_players w = map snd (players w)"

definition add_player :: "int \<Rightarrow> player_character_data \<Rightarrow> WorldManager \<Rightarrow> WorldManager" where
  "add_player character_id cd w =
     (let player = new_PlayerEntity character_id cd
      in w\<lparr>players := AList.update character_id player (players w),
           player_chunks := add_to_chunk (chunk_id player) character_id (player_chunks w)\<rparr>)"

definition remove_player :: "int \<Rightarrow> WorldManager \<Rightarrow> WorldManager" where
  "remove_player character_id w =
     (case map_of (players w) character_id of
        None \<Rightarrow> w
      | Some player \<Rightarrow>
          w\<lparr>players := AList.delete character_id (players w),
            player_chunks := remove_from_chunk (chunk_id player) character_id (player_chunks w)\<rparr>)"

definition update_player_position ::
  "int \<Rightarrow> real \<Rightarrow> real \<Rightarrow> real \<Rightarrow> real \<Rightarrow> WorldManager \<Rightarrow> WorldManager" where
  "update_player_position character_id x y z rot w =
     (case map_of (players w) character_id of
        None \<Rightarrow> w
      | Some player \<Rightarrow>
          let old_chunk = chunk_id player;
              player1 = update_position x y z rot player;
              w1 = w\<lparr>players := AList.update character_id player1 (players w)\<rparr>
          in if chunk_id player1 \<noteq> old_chunk
             then w1\<lparr>player_chunks :=
                      add_to_chunk (chunk_id player1) character_id
                        (remove_from_chunk old_chunk character_id (player_chunks w1))\<rparr>
             else w1)"

definition nearby_in ::
  "(int \<Rightarrow> 'a Entity_scheme option) \<Rightarrow> ((int \<times> int) \<rightharpoonup> int list) \<Rightarrow> vec3 \<Rightarrow> real
   \<Rightarrow> 'a Entity_scheme list" where
  "nearby_in lookup chunk_dict pos radius =
     (let c = get_chunk_id pos CHUNK_SIZE;
          search_radius = py_int (radius / CHUNK_SIZE) + 1;
          nearby_chunks = get_surrounding_chunks c search_radius
      in concat (map (\<lambda>chunk.
           concat (map (\<lambda>eid.
             case lookup eid of
               None \<Rightarrow> []
             | Some e \<Rightarrow> if calculate_distance pos (position e) \<le> radius then [e] else [])
             (get_or (chunk_dict chunk) [])))
           nearby_chunks))"

text \<open>
  \<open>get_nearby_players\<close> and \<open>get_nearby_npcs\<close> are the same code over the two pairs of
  dictionaries; \<open>nearby_in\<close> is their common body.
\<close>

definition get_nearby_players :: "WorldManager \<Rightarrow> vec3 \<Rightarrow> real \<Rightarrow> PlayerEntity list" where
  "get_nearby_players w pos radius =
     nearby_in (map_of (players w)) (player_chunks w) pos radius"

definition get_nearby_npcs :: "WorldManager \<Rightarrow> vec3 \<Rightarrow> real \<Rightarrow> NPCEntity list" where
  "get_nearby_npcs w pos radius = nearby_in (map_of (npcs w)) (npc_chunks w) pos radius"

definition spawn_npc :: "npc_data \<Rightarrow> vec3 \<Rightarrow> WorldManager \<Rightarrow> WorldManager" where
  "spawn_npc nd pos w =
     (let instance_id = next_npc_instance_id w;
          npc = new_NPCEntity instance_id nd pos
      in w\<lparr>next_npc_instance_id := instance_id + 1,
           npcs := AList.update instance_id npc (npcs w),
           npc_chunks := add_to_chunk (chunk_id npc) instance_id (npc_chunks w)\<rparr>)"

definition remove_npc :: "int \<Rightarrow> WorldManager \<Rightarrow> WorldManager" where
  "remove_npc instance_id w =
     (case map_of (npcs w) instance_id of
        None \<Rightarrow> w
      | Some npc \<Rightarrow>
          w\<lparr>npcs := AList.delete instance_id (npcs w),
            npc_chunks := remove_from_chunk (chunk_id npc) instance_id (npc_chunks w)\<rparr>)"

definition update_npc_position ::
  "int \<Rightarrow> real \<Rightarrow> real \<Rightarrow> real \<Rightarrow> real \<Rightarrow> WorldManager \<Rightarrow> WorldManager" where
  "update_npc_position instance_id x y z rot w =
     (case map_of (npcs w) instance_id of
        None \<Rightarrow> w
      | Some npc \<Rightarrow>
          let old_chunk = chunk_id npc;
              npc1 = update_position x y z rot npc;
              w1 = w\<lparr>npcs := AList.update instance_id npc1 (npcs w)\<rparr>
          in if chunk_id npc1 \<noteq> old_chunk
             then w1\<lparr>npc_chunks :=
                      add_to_chunk (chunk_id npc1) instance_id
                        (remove_from_chunk old_chunk instance_id (npc_chunks w1))\<rparr>
             else w1)"

text \<open>A sequence of registry operations, run from the empty world of \<open>__init__\<close>.\<close>

datatype world_op =
    AddPlayer int player_character_data
  | RemovePlayer int
  | UpdatePlayerPosition int real real real real
  | SpawnNpc npc_data vec3
  | RemoveNpc int
  | UpdateNpcPosition int real real real real

fun apply_world_op :: "world_op \<Rightarrow> WorldManager \<Rightarrow> WorldManager" where
  "apply_world_op (AddPlayer cid cd) w = add_player cid cd w"
| "apply_world_op (RemovePlayer cid) w = remove_player cid w"
| "apply_world_op (UpdatePlayerPosition cid x y z rot) w = update_player_position cid x y z rot w"
| "apply_world_op (SpawnNpc nd pos) w = spawn_npc nd pos w"
| "apply_world_op (RemoveNpc iid) w = remove_npc iid w"
| "apply_world_op (UpdateNpcPosition iid x y z rot) w = update_npc_position iid x y z rot w"

definition run_world_ops :: "world_op list \<Rightarrow> WorldManager" where
  "run_world_ops ops = foldl (\<lambda>w op. apply_world_op op w) new_WorldManager ops"

section \<open>shared/game_data.py: the skill database\<close>

text \<open>
  A skill dictionary is a record of optional entries (the keys the combat code reads).
  \<open>get_skill_data\<close> returns \<open>{}\<close> for an unknown id, which the caller tests with
  \<open>not skill_data\<close>; here that is \<open>None\<close>.
\<close>

record skill_data =
  sk_damage_multiplier :: "real option"
  sk_mp_cost :: "int option"
  sk_cooldown :: "real option"
  sk_range :: "real option"
  sk_damage_type :: "int option"
  sk_aoe_radius :: "real option"
  sk_heal_amount :: "int option"
  sk_required_level :: "int option"

definition damage_skill ::
  "real \<Rightarrow> int \<Rightarrow> real \<Rightarrow> real \<Rightarrow> int \<Rightarrow> real option \<Rightarrow> int \<Rightarrow> skill_data" where
  "damage_skill mult cost cd rng dtype aoe lvl =
     \<lparr>sk_damage_multiplier = Some mult, sk_mp_cost = Some cost, sk_cooldown = Some cd,
      sk_range = Some rng, sk_damage_type = Some dtype, sk_aoe_radius = aoe,
      sk_heal_amount = None, sk_required_level = Some lvl\<rparr>"

definition SKILL_DATABASE :: "(int \<times> skill_data) list" where
  "SKILL_DATABASE =
     [(0, damage_skill (3 / 2) 10 3 ATTACK_RANGE_MELEE DamageType_PHYSICAL None 1),
      (1, damage_skill 2 15 4 (ATTACK_RANGE_MELEE * (3 / 2)) DamageType_PHYSICAL None 10),
      (2, damage_skill (18 / 10) 25 6 ATTACK_RANGE_MELEE DamageType_PHYSICAL (Some 3) 20),
      (10, damage_skill (22 / 10) 12 (7 / 2) ATTACK_RANGE_RANGED DamageType_PHYSICAL None 1),
      (11, damage_skill (12 / 10) 20 5 ATTACK_RANGE_RANGED DamageType_PHYSICAL None 15),
      (12, damage_skill 3 30 8 (ATTACK_RANGE_RANGED * 2) DamageType_PHYSICAL None 30),
      (20, damage_skill (5 / 2) 20 4 ATTACK_RANGE_MAGIC DamageType_MAGICAL None 1),
      (21, damage_skill 2 18 (9 / 2) ATTACK_RANGE_MAGIC DamageType_MAGICAL None 8),
      (22, damage_skill (28 / 10) 25 5 (ATTACK_RANGE_MAGIC * (12 / 10)) DamageType_MAGICAL None 18),
      (23, \<lparr>sk_damage_multiplier = None, sk_mp_cost = Some 30, sk_cooldown = Some 10,
            sk_range = Some ATTACK_RANGE_MAGIC, sk_damage_type = None, sk_aoe_radius = None,
            sk_heal_amount = Some 100, sk_required_level = Some 12\<rparr>),
      (30, damage_skill 5 50 30 ATTACK_RANGE_MELEE DamageType_TRUE None 50),
      (31, damage_skill (9 / 2) 50 30 (ATTACK_RANGE_RANGED * (3 / 2)) DamageType_TRUE None 50),
      (32, damage_skill 6 60 40 ATTACK_RANGE_MAGIC DamageType_MAGICAL (Some 10) 60)]"

definition get_skill_data :: "int \<Rightarrow> skill_data option" where
  "get_skill_data skill_id = map_of SKILL_DATABASE skill_id"

section \<open>server/game_server/combat_system.py\<close>

text \<open>
  A method that mutates the world returns the new state together with its result.
  \<open>Raised e\<close> is an exception leaving the method (with the state as it was at that
  moment), \<open>Returned v\<close> a normal return; Python's \<open>None\<close> result is \<open>Returned None\<close>.
  The clock reading \<open>time.time()\<close> and the random draw inside \<open>calculate_damage\<close> are
  arguments. Entities are Python objects shared between the registry and the local
  variables of a method: every mutation is written to the registry under the key the
  object was fetched with, and later reads go through the registry, so that an attacker
  who is also the target is one object, as in the source.
\<close>

datatype 'a outcome = Raised py_error | Returned 'a

record CombatSystem =
  world :: WorldManager
  active_cooldowns :: "int \<rightharpoonup> (int \<rightharpoonup> real)"

datatype target = PlayerTarget PlayerEntity | NpcTarget NPCEntity

definition target_position :: "target \<Rightarrow> vec3" where
  "target_position t = (case t of PlayerTarget p \<Rightarrow> position p | NpcTarget n \<Rightarrow> position n)"

definition target_defense :: "target \<Rightarrow> int" where
  "target_defense t = (case t of PlayerTarget p \<Rightarrow> defense p | NpcTarget n \<Rightarrow> npc_defense n)"

definition target_level :: "target \<Rightarrow> int" where
  "target_level t = (case t of PlayerTarget p \<Rightarrow> level p | NpcTarget n \<Rightarrow> npc_level n)"

definition get_target :: "WorldManager \<Rightarrow> int \<Rightarrow> string \<Rightarrow> target option" where
  "get_target w target_id target_type =
     (if target_type = ''player'' then map_option PlayerTarget (get_player w target_id)
      else if target_type = ''npc'' then map_option NpcTarget (get_npc w target_id)
      else None)"

definition mutate_player :: "int \<Rightarrow> (PlayerEntity \<Rightarrow> PlayerEntity) \<Rightarrow> WorldManager \<Rightarrow> WorldManager" where
  "mutate_player k f w = w\<lparr>players := AList.map_entry k f (players w)\<rparr>"

definition mutate_npc :: "int \<Rightarrow> (NPCEntity \<Rightarrow> NPCEntity) \<Rightarrow> WorldManager \<Rightarrow> WorldManager" where
  "mutate_npc k f w = w\<lparr>npcs := AList.map_entry k f (npcs w)\<rparr>"

text \<open>\<open>target.apply_damage(damage)\<close>: the flag returned, the target's hp afterwards, the world.\<close>

definition damage_target :: "target \<Rightarrow> int \<Rightarrow> int \<Rightarrow> WorldManager \<Rightarrow> bool \<times> int \<times> WorldManager" where
  "damage_target t target_id damage w =
     (case t of
        PlayerTarget p \<Rightarrow>
          (fst (apply_damage damage p), hp (snd (apply_damage damage p)),
           mutate_player target_id (\<lambda>q. snd (apply_damage damage q)) w)
      | NpcTarget n \<Rightarrow>
          (fst (npc_apply_damage damage n), npc_hp (snd (npc_apply_damage damage n)),
           mutate_npc target_id (\<lambda>q. snd (npc_apply_damage damage q)) w))"

record attack_result =
  ar_attacker_id :: int
  ar_target_id :: int
  ar_target_type :: string
  ar_damage :: int
  ar_target_hp :: int
  ar_target_died :: bool

definition basic_attack ::
  "int \<Rightarrow> int \<Rightarrow> string \<Rightarrow> real \<Rightarrow> real \<Rightarrow> CombatSystem
   \<Rightarrow> attack_result option outcome \<times> CombatSystem" where
  "basic_attack attacker_id target_id target_type current_time variance cs =
     (case get_player (world cs) attacker_id of
        None \<Rightarrow> (Returned None, cs)
      | Some attacker \<Rightarrow>
          if is_dead attacker then (Returned None, cs)
          else if \<not> can_attack attacker current_time ATTACK_COOLDOWN then (Returned None, cs)
          else
            (case get_target (world cs) target_id target_type of
               None \<Rightarrow> (Returned None, cs)
             | Some t \<Rightarrow>
                 if calculate_distance (position attacker) (target_position t) > ATTACK_RANGE_MELEE
                 then (Returned None, cs)
                 else
                   (case calculate_damage (attack attacker, level attacker)
                           (target_defense t, target_level t) 1 DamageType_PHYSICAL variance of
                      Inl e \<Rightarrow> (Raised e, cs)
                    | Inr damage \<Rightarrow>
                        (case damage_target t target_id damage (world cs) of
                           (target_died, target_hp, w1) \<Rightarrow>
                             (Returned (Some
                                \<lparr>ar_attacker_id = attacker_id, ar_target_id = target_id,
                                 ar_target_type = target_type, ar_damage = damage,
                                 ar_target_hp = target_hp, ar_target_died = target_died\<rparr>),
                              cs\<lparr>world := mutate_player attacker_id
                                   (\<lambda>p. p\<lparr>last_attack_time := current_time\<rparr>) w1\<rparr>)))))"

definition check_skill_cooldown :: "CombatSystem \<Rightarrow> int \<Rightarrow> int \<Rightarrow> real \<Rightarrow> bool" where
  "check_skill_cooldown cs character_id skill_id current_time =
     (case active_cooldowns cs character_id of
        None \<Rightarrow> True
      | Some m \<Rightarrow> current_time \<ge> get_or (m skill_id) 0)"

definition set_skill_cooldown :: "int \<Rightarrow> int \<Rightarrow> real \<Rightarrow> real \<Rightarrow> CombatSystem \<Rightarrow> CombatSystem" where
  "set_skill_cooldown character_id skill_id current_time cooldown cs =
     cs\<lparr>active_cooldowns :=
          (active_cooldowns cs)(character_id \<mapsto>
             (get_or (active_cooldowns cs character_id) Map.empty)
               (skill_id \<mapsto> current_time + cooldown))\<rparr>"

text \<open>
  The result dictionary of \<open>use_skill\<close>: the healing form, or the damage form with its
  list \<open>targets_hit\<close> of tuples \<open>(id, damage, hp, died)\<close> and \<open>caster_mp\<close>.
\<close>

datatype skill_result =
    HealResult int int int int
  | DamageResult int int "(int \<times> int \<times> int \<times> bool) list" int

text \<open>
  The loop over \<open>nearby_npcs\<close> of the area-of-effect part. The list holds NPC objects;
  the model finds each object again in the registry under its \<open>instance_id\<close>, the key
  \<open>spawn_npc\<close> registered it with (the branch for a missing key is never taken in a
  world built by the registry operations).
\<close>

fun aoe_loop ::
  "int \<Rightarrow> int \<Rightarrow> NPCEntity list \<Rightarrow> WorldManager \<Rightarrow> (int \<times> int \<times> int \<times> bool) list \<times> WorldManager" where
  "aoe_loop target_id damage [] w = ([], w)"
| "aoe_loop target_id damage (npc # rest) w =
     (if entity_id npc \<noteq> target_id then
        (case get_npc w (entity_id npc) of
           None \<Rightarrow> aoe_loop target_id damage rest w
         | Some cur \<Rightarrow>
             let aoe_damage = py_int (real_of_int damage * (7 / 10));
                 r = npc_apply_damage aoe_damage cur;
                 w1 = mutate_npc (entity_id npc) (\<lambda>q. snd (npc_apply_damage aoe_damage q)) w;
                 rec = aoe_loop target_id damage rest w1
             in ((entity_id npc, aoe_damage, npc_hp (snd r), fst r) # fst rec, snd rec))
      else aoe_loop target_id damage rest w)"

text \<open>
  The part of \<open>use_skill\<close> after "Consume MP" and "Set cooldown" (source lines 140 to
  214); \<open>caster\<close> is the caster object after the deduction.
\<close>

definition use_skill_effect ::
  "PlayerEntity \<Rightarrow> int \<Rightarrow> int \<Rightarrow> skill_data \<Rightarrow> int option \<Rightarrow> string \<Rightarrow> real \<Rightarrow> CombatSystem
   \<Rightarrow> skill_result option outcome \<times> CombatSystem" where
  "use_skill_effect caster caster_id skill_id sd target_id target_type variance cs =
     (if skill_id = SkillType_HEAL then
        let heal_amount = get_or (sk_heal_amount sd) 100
        in (Returned (Some (HealResult caster_id skill_id heal_amount
                              (hp (heal heal_amount caster)))),
            cs\<lparr>world := mutate_player caster_id (heal heal_amount) (world cs)\<rparr>)
      else
        (case target_id of
           None \<Rightarrow> (Returned None, cs)
         | Some tid \<Rightarrow>
             (case get_target (world cs) tid target_type of
                None \<Rightarrow> (Returned None, cs)
              | Some t \<Rightarrow>
                  if calculate_distance (position caster) (target_position t)
                       > get_or (sk_range sd) ATTACK_RANGE_MELEE
                  then (Returned None, cs)
                  else
                    (case calculate_damage (attack caster, level caster)
                            (target_defense t, target_level t)
                            (get_or (sk_damage_multiplier sd) 1)
                            (get_or (sk_damage_type sd) DamageType_PHYSICAL) variance of
                       Inl e \<Rightarrow> (Raised e, cs)
                     | Inr damage \<Rightarrow>
                         (case damage_target t tid damage (world cs) of
                            (target_died, target_hp, w1) \<Rightarrow>
                              let aoe_radius = get_or (sk_aoe_radius sd) 0;
                                  aoe = (if aoe_radius > 0
                                         then aoe_loop tid damage
                                                (get_nearby_npcs w1 (target_position t) aoe_radius) w1
                                         else ([], w1))
                              in (Returned (Some (DamageResult caster_id skill_id
                                     ((tid, damage, target_hp, target_died) # fst aoe)
                                     (mp caster))),
                                  cs\<lparr>world := snd aoe\<rparr>))))))"

definition use_skill ::
  "int \<Rightarrow> int \<Rightarrow> int option \<Rightarrow> string \<Rightarrow> real \<Rightarrow> real \<Rightarrow> CombatSystem
   \<Rightarrow> skill_result option outcome \<times> CombatSystem" where
  "use_skill caster_id skill_id target_id target_type current_time variance cs =
     (case get_player (world cs) caster_id of
        None \<Rightarrow> (Returned None, cs)
      | Some caster \<Rightarrow>
          if is_dead caster then (Returned None, cs)
          else
            (case get_skill_data skill_id of
               None \<Rightarrow> (Returned None, cs)
             | Some sd \<Rightarrow>
                 let mp_cost = get_or (sk_mp_cost sd) 0 in
                 if mp caster < mp_cost then (Returned None, cs)
                 else if \<not> check_skill_cooldown cs caster_id skill_id current_time
                 then (Returned None, cs)
                 else if level caster < get_or (sk_required_level sd) 1 then (Returned None, cs)
                 else
                   let cs1 = cs\<lparr>world := mutate_player caster_id
                                    (\<lambda>p. p\<lparr>mp := mp p - mp_cost\<rparr>) (world cs)\<rparr>;
                       cs2 = set_skill_cooldown caster_id skill_id current_time
                               (get_or (sk_cooldown sd) 0) cs1
                   in use_skill_effect (caster\<lparr>mp := mp caster - mp_cost\<rparr>) caster_id skill_id
                        sd target_id target_type variance cs2))"

definition respawn_player :: "int \<Rightarrow> vec3 \<Rightarrow> CombatSystem \<Rightarrow> bool \<times> CombatSystem" where
  "respawn_player character_id spawn_position cs =
     (case get_player (world cs) character_id of
        None \<Rightarrow> (False, cs)
      | Some player \<Rightarrow>
          (case spawn_position of (x, y, z) \<Rightarrow>
             (True,
              cs\<lparr>world := update_player_position character_id x y z 0
                   (mutate_player character_id
                      (\<lambda>p. p\<lparr>is_dead := False, hp := max_hp p, mp := max_mp p\<rparr>) (world cs))\<rparr>)))"

section \<open>server/game_server/territory_system.py\<close>

text \<open>
  \<open>TerritoryState\<close> without the display names. The database calls of
  \<open>_capture_territory\<close> (persisting the controller, logging the event) do not feed back
  into the state and are left out; its second clock reading is the tick's time.
\<close>

record TerritoryState =
  territory_id :: int
  territory_position :: vec3
  radius :: real
  capture_points_required :: int
  controller_id :: "int option"
  capture_points :: int
  last_capture_time :: real
  capturing_player_id :: "int option"
  capture_start_time :: real

definition is_being_captured :: "TerritoryState \<Rightarrow> bool" where
  "is_being_captured t = (capturing_player_id t \<noteq> None)"

definition get_capture_progress :: "TerritoryState \<Rightarrow> real \<Rightarrow> real" where
  "get_capture_progress t current_time =
     (if \<not> is_being_captured t then 0
      else let elapsed = current_time - capture_start_time t
           in min (elapsed / TERRITORY_CAPTURE_TIME) 1)"

definition get_players_in_territory :: "WorldManager \<Rightarrow> TerritoryState \<Rightarrow> PlayerEntity list" where
  "get_players_in_territory w t =
     filter (\<lambda>player. \<not> is_dead player
                \<and> calculate_distance (position player) (territory_position t) \<le> radius t)
       (get_all_players w)"

definition capture_territory :: "TerritoryState \<Rightarrow> int \<Rightarrow> real \<Rightarrow> TerritoryState" where
  "capture_territory t character_id now =
     t\<lparr>controller_id := Some character_id,
       capture_points := capture_points_required t,
       last_capture_time := now,
       capturing_player_id := None,
       capture_start_time := 0\<rparr>"

text \<open>The body of the loop \<open>for player in players_in_territory\<close>.\<close>

definition capture_step :: "real \<Rightarrow> PlayerEntity \<Rightarrow> TerritoryState \<Rightarrow> TerritoryState" where
  "capture_step current_time player t =
     (if Some (entity_id player) = controller_id t then t
      else if \<not> is_being_captured t
      then t\<lparr>capturing_player_id := Some (entity_id player),
             capture_start_time := current_time\<rparr>
      else if capturing_player_id t = Some (entity_id player)
      then (if get_capture_progress t current_time \<ge> 1
            then capture_territory t (entity_id player) current_time
            else t)
      else t)"

fun capture_loop :: "real \<Rightarrow> PlayerEntity list \<Rightarrow> TerritoryState \<Rightarrow> TerritoryState" where
  "capture_loop current_time [] t = t"
| "capture_loop current_time (player # rest) t =
     capture_loop current_time rest (capture_step current_time player t)"

text \<open>The body of the loop \<open>for territory in self.territories.values()\<close>.\<close>

definition update_territory :: "real \<Rightarrow> WorldManager \<Rightarrow> TerritoryState \<Rightarrow> TerritoryState" where
  "update_territory current_time w t =
     (let players_in_territory = get_players_in_territory w t in
      if length players_in_territory \<ge> MIN_PLAYERS_TO_CAPTURE
      then capture_loop current_time players_in_territory t
      else if is_being_captured t
      then t\<lparr>capturing_player_id := None, capture_start_time := 0\<rparr>
      else t)"

text \<open>\<open>TerritorySystem.update\<close> over the dictionary of territories.\<close>

definition update ::
  "real \<Rightarrow> WorldManager \<Rightarrow> (int \<times> TerritoryState) list \<Rightarrow> (int \<times> TerritoryState) list" where
  "update current_time w territories =
     map (\<lambda>(k, t). (k, update_territory current_time w t)) territories"

text \<open>
  A run of ticks: each tick is the clock reading and the world at that call of
  \<open>update\<close>. \<open>run_ticks t ticks\<close> is the state of one territory after the ticks.
\<close>

fun run_ticks :: "TerritoryState \<Rightarrow> (real \<times> WorldManager) list \<Rightarrow> TerritoryState" where
  "run_ticks t [] = t"
| "run_ticks t (tick # rest) = run_ticks (update_territory (fst tick) (snd tick) t) rest"

section \<open>server/game_server/reincarnation_system.py and the database\<close>

text \<open>
  The rows of the \<open>characters\<close> table that reincarnation reads or writes, and the
  \<open>reincarnation_history\<close> rows it adds.
\<close>

record Character =
  ch_level :: int
  ch_experience :: int
  ch_hp :: int
  ch_max_hp :: int
  ch_mp :: int
  ch_max_mp :: int
  ch_reincarnation_count :: int
  ch_reincarnation_perks :: perks
  ch_total_kills :: int
  ch_player_kills :: int
  ch_boss_kills :: int
  ch_territory_control_time :: int
  ch_playtime :: int

record ReincarnationHistory =
  rh_character_id :: int
  rh_reincarnation_number :: int
  rh_success_score :: real
  rh_perks_gained :: perks

record Database =
  characters :: "int \<rightharpoonup> Character"
  reincarnation_history :: "ReincarnationHistory list"

text \<open>
  \<open>DatabaseManager.get_session\<close> commits and then closes the session when its \<open>with\<close>
  block is left, and the session factory is \<open>sessionmaker(bind=self.engine)\<close> with the
  default \<open>expire_on_commit\<close>. A row returned out of such a block, as
  \<open>get_character_by_id\<close> does, is an ORM instance whose columns are expired and which
  belongs to no session: reading a column of it raises \<open>DetachedInstanceError\<close>. A row
  used inside the block (as in \<open>reincarnate_character\<close>) is read and written normally.
\<close>

datatype instance_state = Persistent | Detached_expired

record ORM_Character =
  inst_state :: instance_state
  inst_row :: Character

definition read_instance :: "ORM_Character \<Rightarrow> py_error + Character" where
  "read_instance i =
     (if inst_state i = Persistent then Inr (inst_row i) else Inl DetachedInstanceError)"

definition get_character_by_id :: "Database \<Rightarrow> int \<Rightarrow> ORM_Character option" where
  "get_character_by_id db character_id =
     map_option (\<lambda>row. \<lparr>inst_state = Detached_expired, inst_row = row\<rparr>)
       (characters db character_id)"

definition reincarnate_character :: "int \<Rightarrow> real \<Rightarrow> perks \<Rightarrow> Database \<Rightarrow> bool \<times> Database" where
  "reincarnate_character character_id success_score ps db =
     (case characters db character_id of
        None \<Rightarrow> (False, db)
      | Some character \<Rightarrow>
          (True,
           db\<lparr>reincarnation_history := reincarnation_history db @
                 [\<lparr>rh_character_id = character_id,
                   rh_reincarnation_number = ch_reincarnation_count character + 1,
                   rh_success_score = success_score, rh_perks_gained = ps\<rparr>],
              characters := (characters db)(character_id \<mapsto>
                 character\<lparr>ch_reincarnation_count := ch_reincarnation_count character + 1,
                           ch_level := STARTING_LEVEL, ch_experience := 0,
                           ch_hp := STARTING_HP, ch_max_hp := STARTING_HP,
                           ch_mp := STARTING_MP, ch_max_mp := STARTING_MP,
                           ch_total_kills := 0, ch_player_kills := 0, ch_boss_kills := 0,
                           ch_territory_control_time := 0, ch_playtime := 0,
                           ch_reincarnation_perks := ps\<rparr>)\<rparr>))"

text \<open>
  \<open>can_reincarnate\<close> returns a pair of a flag and a message; the model keeps the flag.
  Its first column read, \<open>character.level\<close>, is where a detached row raises.
\<close>

definition can_reincarnate :: "Database \<Rightarrow> int \<Rightarrow> bool outcome" where
  "can_reincarnate db character_id =
     (case get_character_by_id db character_id of
        None \<Rightarrow> Returned False
      | Some character \<Rightarrow>
          (case read_instance character of
             Inl e \<Rightarrow> Raised e
           | Inr row \<Rightarrow>
               if ch_level row < REINCARNATION_LEVEL_REQUIREMENT then Returned False
               else if ch_reincarnation_count row \<ge> MAX_REINCARNATIONS then Returned False
               else Returned True))"

definition life_stats :: "Character \<Rightarrow> character_data" where
  "life_stats character =
     \<lparr>cd_level = Some (ch_level character),
      cd_total_kills = Some (ch_total_kills character),
      cd_territory_control_time = Some (ch_territory_control_time character),
      cd_boss_kills = Some (ch_boss_kills character),
      cd_playtime = Some (ch_playtime character)\<rparr>"

text \<open>The dictionary \<open>merged_perks\<close> built in \<open>perform_reincarnation\<close> (source lines 76 to 84).\<close>

definition merge_perks :: "perks \<Rightarrow> perk_set \<Rightarrow> perks" where
  "merge_perks current_perks new_perks =
     [''hp_bonus'' \<mapsto> get_or (current_perks ''hp_bonus'') 0 + hp_bonus new_perks,
      ''mp_bonus'' \<mapsto> get_or (current_perks ''mp_bonus'') 0 + mp_bonus new_perks,
      ''attack_bonus'' \<mapsto> get_or (current_perks ''attack_bonus'') 0 + attack_bonus new_perks,
      ''defense_bonus'' \<mapsto> get_or (current_perks ''defense_bonus'') 0 + defense_bonus new_perks,
      ''speed_bonus'' \<mapsto> get_or (current_perks ''speed_bonus'') 0 + speed_bonus new_perks,
      ''xp_multiplier'' \<mapsto>
         get_or (current_perks ''xp_multiplier'') 0 + xp_multiplier new_perks]"

text \<open>The result dictionary of \<open>perform_reincarnation\<close> (the entries about perks).\<close>

record reincarnation_result =
  rr_character_id :: int
  rr_reincarnation_count :: int
  rr_success_score :: real
  rr_new_perks :: perk_set
  rr_total_perks :: perks
  rr_previous_level :: int

definition perform_reincarnation ::
  "int \<Rightarrow> Database \<Rightarrow> reincarnation_result option outcome \<times> Database" where
  "perform_reincarnation character_id db =
     (case can_reincarnate db character_id of
        Raised e \<Rightarrow> (Raised e, db)
      | Returned ok \<Rightarrow>
          if \<not> ok then (Returned None, db)
          else
            (case get_character_by_id db character_id of
               None \<Rightarrow> (Returned None, db)
             | Some character \<Rightarrow>
                 (case read_instance character of
                    Inl e \<Rightarrow> (Raised e, db)
                  | Inr row \<Rightarrow>
                      let success_score = calculate_success_score (life_stats row);
                          new_reincarnation_count = ch_reincarnation_count row + 1;
                          new_perks = calculate_reincarnation_perks new_reincarnation_count
                                        success_score;
                          merged_perks = merge_perks (ch_reincarnation_perks row) new_perks
                      in (case reincarnate_character character_id success_score merged_perks db of
                            (success, db1) \<Rightarrow>
                              if \<not> success then (Returned None, db1)
                              else (Returned (Some
                                      \<lparr>rr_character_id = character_id,
                                       rr_reincarnation_count = new_reincarnation_count,
                                       rr_success_score = success_score,
                                       rr_new_perks = new_perks,
                                       rr_total_perks = merged_perks,
                                       rr_previous_level = ch_level row\<rparr>), db1)))))"

section \<open>subjugate_online/shared/protocol.py\<close>

text \<open>
  Bytes are \<open>8 word\<close>. \<open>struct.pack\<close> with \<open>'!HIHBB'\<close> writes five unsigned big-endian
  fields of 2, 4, 2, 1 and 1 bytes without padding and raises \<open>struct.error\<close> for a
  value outside a field's range. \<open>zlib.compress\<close> and \<open>zlib.decompress\<close> belong to
  the Python library, not to this repository: they are parameters (\<open>decompress\<close>
  returns \<open>None\<close> where \<open>zlib.error\<close> is raised).
\<close>

type_synonym bytes = "8 word list"

fun be_bytes :: "nat \<Rightarrow> int \<Rightarrow> bytes" where
  "be_bytes 0 v = []"
| "be_bytes (Suc n) v = word_of_int (v div 256 ^ n) # be_bytes n v"

definition be_int :: "bytes \<Rightarrow> int" where
  "be_int bs = foldl (\<lambda>acc b. acc * 256 + uint b) 0 bs"

definition pack_field :: "nat \<Rightarrow> int \<Rightarrow> py_error + bytes" where
  "pack_field n v = (if 0 \<le> v \<and> v < 256 ^ n then Inr (be_bytes n v) else Inl StructError)"

definition HEADER_FIELDS :: "nat list" where
  "HEADER_FIELDS = [2, 4, 2, 1, 1]"

definition HEADER_SIZE :: nat where
  "HEADER_SIZE = sum_list HEADER_FIELDS"

definition MAX_PAYLOAD_SIZE :: nat where
  "MAX_PAYLOAD_SIZE = 65535"

fun struct_pack :: "nat list \<Rightarrow> int list \<Rightarrow> py_error + bytes" where
  "struct_pack [] [] = Inr []"
| "struct_pack (n # ns) (v # vs) =
     (case pack_field n v of
        Inl e \<Rightarrow> Inl e
      | Inr b \<Rightarrow> (case struct_pack ns vs of Inl e \<Rightarrow> Inl e | Inr bs \<Rightarrow> Inr (b @ bs)))"
| "struct_pack _ _ = Inl StructError"

fun struct_unpack :: "nat list \<Rightarrow> bytes \<Rightarrow> int list" where
  "struct_unpack [] data = []"
| "struct_unpack (n # ns) data = be_int (take n data) # struct_unpack ns (drop n data)"

definition PacketType_values :: "int list" where
  "PacketType_values =
     [0, 1, 2, 3, 4, 5, 6, 7,
      100, 101, 102, 103, 104, 105,
      200, 201, 202, 203, 204, 205, 206,
      300, 301, 302, 303, 304, 305, 306, 307, 308, 309,
      400, 401, 402, 403, 404, 405,
      500, 501, 502, 503, 504, 505, 506,
      600, 601, 602, 603, 604,
      700, 701, 702, 703, 704,
      800, 801, 802, 803, 804, 805,
      900, 901, 902, 903, 999]"

record Packet =
  packet_type :: int
  payload :: bytes
  compressed :: bool
  encrypted :: bool
  sequence :: int

definition calculate_checksum :: "bytes \<Rightarrow> int" where
  "calculate_checksum data = (sum_list (map uint data)) AND 255"

text \<open>
  \<open>serialize\<close> returns the bytes and the packet object, whose \<open>compressed\<close> flag the
  method sets when it compresses.
\<close>

definition serialize :: "(bytes \<Rightarrow> bytes) \<Rightarrow> Packet \<Rightarrow> py_error + (bytes \<times> Packet)" where
  "serialize zlib_compress p =
     (let do_compress = (length (payload p) > 512 \<and> \<not> compressed p);
          pl = (if do_compress then zlib_compress (payload p) else payload p);
          p1 = (if do_compress then p\<lparr>compressed := True\<rparr> else p);
          flags = (0::int);
          flags = (if compressed p1 then flags OR 1 else flags);
          flags = (if encrypted p1 then flags OR 2 else flags);
          checksum = calculate_checksum pl
      in case struct_pack HEADER_FIELDS
                [packet_type p1, int (length pl), sequence p1, flags, checksum] of
           Inl e \<Rightarrow> Inl e
         | Inr header \<Rightarrow> Inr (header @ pl, p1))"

definition deserialize :: "(bytes \<Rightarrow> bytes option) \<Rightarrow> bytes \<Rightarrow> py_error + Packet" where
  "deserialize zlib_decompress data =
     (if length data < HEADER_SIZE
      then Inl (ValueError ''Insufficient data for packet header'')
      else
        (case struct_unpack HEADER_FIELDS (take HEADER_SIZE data) of
           [ptype, payload_length, seq, flags, checksum] \<Rightarrow>
             if int (length data) < int HEADER_SIZE + payload_length
             then Inl (ValueError ''Insufficient data for packet payload'')
             else
               let pl = take (nat payload_length) (drop HEADER_SIZE data) in
               if calculate_checksum pl \<noteq> checksum
               then Inl (ValueError ''Packet checksum mismatch'')
               else
                 let is_compressed = (flags AND 1 \<noteq> 0) in
                 (case (if is_compressed then zlib_decompress pl else Some pl) of
                    None \<Rightarrow> Inl ZlibError
                  | Some pl1 \<Rightarrow>
                      if ptype \<notin> set PacketType_values
                      then Inl (ValueError ''not a valid PacketType'')
                      else Inr \<lparr>packet_type = ptype, payload = pl1,
                                compressed = is_compressed,
                                encrypted = (flags AND 2 \<noteq> 0), sequence = seq\<rparr>)
         | _ \<Rightarrow> Inl StructError))"

section \<open>Predicates and concrete states used in the statements\<close>

definition target_hp_of :: "target \<Rightarrow> int" where
  "target_hp_of t = (case t of PlayerTarget p \<Rightarrow> hp p | NpcTarget n \<Rightarrow> npc_hp n)"

text \<open>The bounds on a player's hit points and mana, and the same for every player of a world.\<close>

definition player_ok :: "PlayerEntity \<Rightarrow> bool" where
  "player_ok p = (0 \<le> hp p \<and> hp p \<le> max_hp p \<and> 0 \<le> mp p \<and> mp p \<le> max_mp p)"

definition players_ok :: "WorldManager \<Rightarrow> bool" where
  "players_ok w = list_all player_ok (get_all_players w)"


text \<open>
  A small world: two players created from an empty \<open>character_data\<close> dictionary (so
  every field takes its default: position (100, 0, 100), 100 hp, 50 mp, attack 10,
  defense 10, level 1) and one NPC with 5 hp at the same place.
\<close>

definition default_character_data :: player_character_data where
  "default_character_data =
     \<lparr>pd_position_x = None, pd_position_y = None, pd_position_z = None, pd_level = None,
      pd_hp = None, pd_max_hp = None, pd_mp = None, pd_max_mp = None, pd_attack = None,
      pd_defense = None\<rparr>"

definition weak_npc_data :: npc_data where
  "weak_npc_data = \<lparr>nd_level = None, nd_hp = Some 5, nd_attack = None, nd_defense = None\<rparr>"

definition example_world :: WorldManager where
  "example_world =
     run_world_ops [AddPlayer 1 default_character_data, AddPlayer 2 default_character_data,
                    SpawnNpc weak_npc_data (100, 0, 100)]"

definition example_combat :: CombatSystem where
  "example_combat = \<lparr>world = example_world, active_cooldowns = Map.empty\<rparr>"

definition default_player :: "int \<Rightarrow> PlayerEntity" where
  "default_player k =
     \<lparr>entity_id = k, position = (100, 0, 100), rotation = 0, chunk_id = (2, 2),
      level = 1, hp = 100, max_hp = 100, mp = 50, max_mp = 50, attack = 10, defense = 10,
      is_dead = False, last_attack_time = 0\<rparr>"

text \<open>
  The perks a character holds after a first reincarnation with score 1 in which only hp
  and mp were recorded, and a database with one such character, of level 110 in its
  second life.
\<close>

definition example_perks :: perks where
  "example_perks = [''hp_bonus'' \<mapsto> 50, ''mp_bonus'' \<mapsto> 25]"

definition example_character :: Character where
  "example_character =
     \<lparr>ch_level = 110, ch_experience = 0, ch_hp = 100, ch_max_hp = 100, ch_mp = 50,
      ch_max_mp = 50, ch_reincarnation_count = 1, ch_reincarnation_perks = example_perks,
      ch_total_kills = 0, ch_player_kills = 0, ch_boss_kills = 0,
      ch_territory_control_time = 0, ch_playtime = 0\<rparr>"

definition example_database :: Database where
  "example_database = \<lparr>characters = [1 \<mapsto> example_character], reincarnation_history = []\<rparr>"

text \<open>
  A packet of 513 bytes and two frames for it. The first is what \<open>serialize\<close> produces
  for the fresh object with the stand-in compressor below: type 600, length 514,
  sequence 0, flags 1, checksum 127, then the compressed payload. The second is what
  \<open>serialize\<close> produces once the object is marked compressed: type 600, length 513,
  sequence 0, flags 1, checksum 7, then the payload as it is.
\<close>

definition big_packet :: Packet where
  "big_packet =
     \<lparr>packet_type = 600, payload = replicate 513 7, compressed = False, encrypted = False,
      sequence = 0\<rparr>"

definition first_frame :: bytes where
  "first_frame = [2, 88, 0, 0, 2, 2, 0, 0, 1, 127] @ 120 # replicate 513 7"

definition second_frame :: bytes where
  "second_frame = [2, 88, 0, 0, 2, 1, 0, 0, 1, 7] @ replicate 513 7"

text \<open>
  A stand-in for the compressor: it stores the payload behind one marker byte.
\<close>

definition stored_compress :: "bytes \<Rightarrow> bytes" where
  "stored_compress bs = 120 # bs"

definition stored_decompress :: "bytes \<Rightarrow> bytes option" where
  "stored_decompress bs =
     (case bs of [] \<Rightarrow> None | b # rest \<Rightarrow> if b = 120 then Some rest else None)"

text \<open>The values an unsigned field of \<open>n\<close> bytes holds.\<close>

definition in_range :: "nat \<Rightarrow> int \<Rightarrow> bool" where
  "in_range n v = (0 \<le> v \<and> v < 256 ^ n)"

text \<open>
  The invariant of a spatial index: every registered entity carries the chunk of its
  position, and its id is in the bucket of that chunk.
\<close>

definition index_ok ::
  "(int \<Rightarrow> 'a Entity_scheme option) \<Rightarrow> ((int \<times> int) \<rightharpoonup> int list) \<Rightarrow> bool" where
  "index_ok lookup chunk_dict =
     (\<forall>k e. lookup k = Some e \<longrightarrow>
        chunk_id e = get_chunk_id (position e) CHUNK_SIZE \<and>
        k \<in> set (get_or (chunk_dict (chunk_id e)) []))"

definition world_index_ok :: "WorldManager \<Rightarrow> bool" where
  "world_index_ok w =
     (index_ok (map_of (players w)) (player_chunks w) \<and>
      index_ok (map_of (npcs w)) (npc_chunks w))"

text \<open>A player who moves from the default position to negative coordinates.\<close>

definition moving_ops :: "world_op list" where
  "moving_ops = [AddPlayer 1 default_character_data,
                 UpdatePlayerPosition 1 (- 30) 0 (- 30) 0,
                 SpawnNpc weak_npc_data (100, 0, 100)]"

text \<open>The ids of the living players within the radius of a territory.\<close>

definition present_ids :: "WorldManager \<Rightarrow> TerritoryState \<Rightarrow> int list" where
  "present_ids w t = map entity_id (get_players_in_territory w t)"

text \<open>
  Twin City as \<open>TerritoryState.__init__\<close> creates it, two players standing at its
  centre, and three ticks: both players present at time 0, player 1 far away at time
  10, both present again at time 61.
\<close>

definition twin_city :: TerritoryState where
  "twin_city =
     \<lparr>territory_id = 1, territory_position = (200, 0, 200), radius = 40,
      capture_points_required = 750, controller_id = None, capture_points = 0,
      last_capture_time = 0, capturing_player_id = None, capture_start_time = 0\<rparr>"

definition at_twin_city :: player_character_data where
  "at_twin_city = default_character_data\<lparr>pd_position_x := Some 200, pd_position_z := Some 200\<rparr>"

definition both_present :: WorldManager where
  "both_present = run_world_ops [AddPlayer 1 at_twin_city, AddPlayer 2 at_twin_city]"

definition capturer_away :: WorldManager where
  "capturer_away =
     run_world_ops [AddPlayer 1 at_twin_city, AddPlayer 2 at_twin_city,
                    UpdatePlayerPosition 1 500 0 500 0]"

definition interrupted_ticks :: "(real \<times> WorldManager) list" where
  "interrupted_ticks = [(0, both_present), (10, capturer_away), (61, both_present)]"

section \<open>Verified properties\<close>

subsection \<open>Arithmetic helpers\<close>

lemma py_int_mono: "x \<le> y \<Longrightarrow> py_int x \<le> py_int y"
proof -
  assume le: "x \<le> y"
  show ?thesis
  proof (cases "0 \<le> x")
    case True
    with le show ?thesis by (simp add: py_int_def floor_mono)
  next
    case False
    then have "\<lceil>x\<rceil> \<le> 0" by (simp add: ceiling_le_zero)
    show ?thesis
    proof (cases "0 \<le> y")
      case True
      then have "0 \<le> \<lfloor>y\<rfloor>" by simp
      with \<open>\<lceil>x\<rceil> \<le> 0\<close> have "\<lceil>x\<rceil> \<le> \<lfloor>y\<rfloor>" by linarith
      with \<open>\<not> 0 \<le> x\<close> True show ?thesis by (simp add: py_int_def)
    next
      case False
      with \<open>\<not> 0 \<le> x\<close> le show ?thesis by (simp add: py_int_def ceiling_mono)
    qed
  qed
qed

subsection \<open>Success score\<close>

text \<open>
  Claim C8 (the success score lies in [0,1], every one of the five metrics being clamped
  to 1). The code clamps four metrics with \<open>min(..., 1.0)\<close> but not \<open>level / MAX_LEVEL\<close>:
  for a character of level 300 whose other metrics are at their caps the score is 1.3.
\<close>

theorem success_score_exceeds_one:
  "calculate_success_score \<lparr>cd_level = Some 300, cd_total_kills = Some 1000,
     cd_territory_control_time = Some 360000, cd_boss_kills = Some 50,
     cd_playtime = Some 720000\<rparr> = 13 / 10"
  by (simp add: calculate_success_score_def get_or_def MAX_LEVEL_def LEVEL_WEIGHT_def
      KILLS_WEIGHT_def TERRITORY_WEIGHT_def BOSS_KILLS_WEIGHT_def PLAYTIME_WEIGHT_def)

subsection \<open>Frame header\<close>

text \<open>
  Claim C6 (a 12-byte header with a 4-byte sequence number, so that every sequence number
  below 2^32 is serialized and recovered). The format string \<open>'!HIHBB'\<close> gives the
  sequence field two bytes: the header has 10 bytes, and serializing a packet with
  sequence number 65536 raises \<open>struct.error\<close>, whatever the compressor.
\<close>

theorem header_sequence_two_bytes:
  "HEADER_SIZE = 10 \<and>
   serialize zlib_compress
     \<lparr>packet_type = 6, payload = [], compressed = False, encrypted = False,
      sequence = 65536\<rparr> = Inl StructError"
  by (simp add: HEADER_SIZE_def HEADER_FIELDS_def serialize_def pack_field_def
      calculate_checksum_def)

subsection \<open>Damage formula\<close>

lemma damage_factor_nonneg:
  "- 100 < d \<Longrightarrow> 0 \<le> 1 - real_of_int d / real_of_int (d + 100)"
  by (simp add: field_simps)

lemma level_modifier_nonneg: "0 \<le> clamp x (1 / 2) (3 / 2)"
  by (simp add: clamp_def)

lemma damage_attack_mono:
  assumes "0 \<le> m" "- 100 < d" "0 \<le> v" "a1 \<le> a2"
  shows "\<exists>x1 x2. calculate_damage (a1, la) (d, ld) m t v = Inr x1 \<and>
      calculate_damage (a2, la) (d, ld) m t v = Inr x2 \<and> x1 \<le> x2"
proof -
  have base: "real_of_int a1 * m \<le> real_of_int a2 * m"
    using assms by (simp add: mult_right_mono)
  show ?thesis
    using assms base level_modifier_nonneg damage_factor_nonneg [of d]
    by (auto simp: calculate_damage_def Let_def
        intro!: py_int_mono mult_right_mono max.coboundedI2)
qed

lemma damage_factor_antimono:
  assumes "- 100 < d1" "d1 \<le> d2"
  shows "1 - real_of_int d2 / real_of_int (d2 + 100)
         \<le> 1 - real_of_int d1 / real_of_int (d1 + 100)"
proof -
  have "real_of_int d1 * real_of_int (d2 + 100) \<le> real_of_int d2 * real_of_int (d1 + 100)"
    using assms by (simp add: algebra_simps)
  then show ?thesis using assms by (simp add: field_simps)
qed

lemma damage_defense_antimono:
  assumes "- 100 < d1" "d1 \<le> d2" "0 \<le> v" "t \<noteq> DamageType_TRUE"
  shows "\<exists>y1 y2. calculate_damage (a, la) (d1, ld) m t v = Inr y1 \<and>
      calculate_damage (a, la) (d2, ld) m t v = Inr y2 \<and> y2 \<le> y1"
proof -
  define B where "B = real_of_int a * m"
  define L where "L = clamp (1 + real_of_int (la - ld) * (2 / 100)) (1 / 2) (3 / 2)"
  define F1 where "F1 = 1 - real_of_int d1 / real_of_int (d1 + 100)"
  define F2 where "F2 = 1 - real_of_int d2 / real_of_int (d2 + 100)"
  have L: "0 \<le> L" unfolding L_def by (rule level_modifier_nonneg)
  have F: "F2 \<le> F1" "0 \<le> F2" "0 \<le> F1"
    using assms damage_factor_antimono [of d1 d2] damage_factor_nonneg [of d1]
      damage_factor_nonneg [of d2] by (auto simp: F1_def F2_def)
  have goal: "max 1 (py_int (B * F2 * L * v)) \<le> max 1 (py_int (B * F1 * L * v))"
  proof (cases "0 \<le> B")
    case True
    then have "B * F2 \<le> B * F1" using F by (simp add: mult_left_mono)
    then have "B * F2 * L * v \<le> B * F1 * L * v"
      using L assms(3) by (simp add: mult_right_mono)
    then show ?thesis by (auto intro!: py_int_mono max.coboundedI2)
  next
    case False
    then have "B * F2 \<le> 0" using F by (simp add: mult_le_0_iff)
    then have "B * F2 * L * v \<le> 0" using L assms(3)
      by (simp add: mult_le_0_iff zero_le_mult_iff)
    then have "py_int (B * F2 * L * v) \<le> py_int 0" by (rule py_int_mono)
    then show ?thesis by (simp add: py_int_def)
  qed
  show ?thesis
    using assms goal
    by (simp add: calculate_damage_def Let_def B_def L_def F1_def F2_def)
qed

text \<open>
  Claim C9. With the skill multiplier \<open>m\<close>, both levels, the damage type and the variance
  factor \<open>v\<close> fixed, \<open>calculate_damage\<close> returns (no exception) and its result does not
  decrease when the attack power grows from \<open>a1\<close> to \<open>a2\<close>; and for a damage type other
  than TRUE, with the attack power fixed, it does not increase when the defense grows
  from \<open>d1\<close> to \<open>d2\<close>. The multiplier and the variance factor are non-negative (skill
  multipliers are positive constants, the variance is drawn from [0.9, 1.1]) and the
  defense lies above -100, which covers every non-negative defense.
\<close>

theorem calculate_damage_monotone:
  assumes "0 \<le> m" and "- 100 < d1" and "d1 \<le> d2" and "0 \<le> v" and "a1 \<le> a2"
  shows "(\<exists>x1 x2. calculate_damage (a1, la) (d1, ld) m t v = Inr x1 \<and>
            calculate_damage (a2, la) (d1, ld) m t v = Inr x2 \<and> x1 \<le> x2) \<and>
         (t \<noteq> DamageType_TRUE \<longrightarrow>
            (\<exists>y1 y2. calculate_damage (a1, la) (d1, ld) m t v = Inr y1 \<and>
               calculate_damage (a1, la) (d2, ld) m t v = Inr y2 \<and> y2 \<le> y1))"
  using assms damage_attack_mono [of m d1 v a1 a2 la ld t]
    damage_defense_antimono [of d1 d2 v t a1 la ld m]
  by blast

theorem calculate_damage_monotone_witness:
  "calculate_damage (10, 1) (5, 1) 1 DamageType_PHYSICAL 1 = Inr 9 \<and>
   calculate_damage (20, 1) (5, 1) 1 DamageType_PHYSICAL 1 = Inr 19 \<and>
   calculate_damage (10, 1) (100, 1) 1 DamageType_PHYSICAL 1 = Inr 5 \<and>
   (\<exists>x1 x2. calculate_damage (10, 1) (5, 1) 1 DamageType_PHYSICAL 1 = Inr x1 \<and>
      calculate_damage (20, 1) (5, 1) 1 DamageType_PHYSICAL 1 = Inr x2 \<and> x1 \<le> x2) \<and>
   (\<exists>y1 y2. calculate_damage (10, 1) (5, 1) 1 DamageType_PHYSICAL 1 = Inr y1 \<and>
      calculate_damage (10, 1) (100, 1) 1 DamageType_PHYSICAL 1 = Inr y2 \<and> y2 \<le> y1)"
proof -
  have e1: "calculate_damage (10, 1) (5, 1) 1 DamageType_PHYSICAL 1 = Inr 9"
    by (simp add: calculate_damage_def DamageType_PHYSICAL_def DamageType_TRUE_def
        clamp_def py_int_def)
  have e2: "calculate_damage (20, 1) (5, 1) 1 DamageType_PHYSICAL 1 = Inr 19"
    by (simp add: calculate_damage_def DamageType_PHYSICAL_def DamageType_TRUE_def
        clamp_def py_int_def)
  have e3: "calculate_damage (10, 1) (100, 1) 1 DamageType_PHYSICAL 1 = Inr 5"
    by (simp add: calculate_damage_def DamageType_PHYSICAL_def DamageType_TRUE_def
        clamp_def py_int_def)
  have t: "DamageType_PHYSICAL \<noteq> DamageType_TRUE"
    by (simp add: DamageType_PHYSICAL_def DamageType_TRUE_def)
  show ?thesis
    using calculate_damage_monotone [of 1 5 100 1 10 20 1 1 DamageType_PHYSICAL] e1 e2 e3 t
    by simp
qed

subsection \<open>Reincarnation perks\<close>

lemma py_int_nonneg: "0 \<le> x \<Longrightarrow> 0 \<le> py_int x"
  by (simp add: py_int_def)

text \<open>
  With the database as it is, \<open>perform_reincarnation\<close> returns \<open>None\<close> for an unknown
  character and raises for every stored one, at the first column read of
  \<open>can_reincarnate\<close>; the database is left as it was.
\<close>

lemma perform_reincarnation_unknown:
  "characters db cid = None \<Longrightarrow> perform_reincarnation cid db = (Returned None, db)"
  by (simp add: perform_reincarnation_def can_reincarnate_def get_character_by_id_def)

lemma perform_reincarnation_raises:
  "characters db cid = Some row
   \<Longrightarrow> perform_reincarnation cid db = (Raised DetachedInstanceError, db)"
  by (simp add: perform_reincarnation_def can_reincarnate_def get_character_by_id_def
      read_instance_def)

lemma perform_reincarnation_example:
  "perform_reincarnation 1 example_database = (Raised DetachedInstanceError, example_database)"
  by (rule perform_reincarnation_raises) (simp add: example_database_def)








subsection \<open>Registry lookups after a mutation\<close>

lemma get_player_mutate:
  "get_player (mutate_player k f w) j =
     (if j = k then map_option f (get_player w k) else get_player w j)"
  by (auto simp: get_player_def mutate_player_def map_of_map_entry split: option.splits)

lemma get_npc_mutate_player [simp]: "get_npc (mutate_player k f w) j = get_npc w j"
  by (simp add: get_npc_def mutate_player_def)

lemma get_player_mutate_npc [simp]: "get_player (mutate_npc k f w) j = get_player w j"
  by (simp add: get_player_def mutate_npc_def)

lemma get_npc_mutate:
  "get_npc (mutate_npc k f w) j =
     (if j = k then map_option f (get_npc w k) else get_npc w j)"
  by (auto simp: get_npc_def mutate_npc_def map_of_map_entry split: option.splits)

lemma apply_damage_hp: "hp (snd (apply_damage d p)) = max 0 (hp p - d)"
  by (auto simp: apply_damage_def Let_def)

lemma apply_damage_died: "fst (apply_damage d p) = (hp (snd (apply_damage d p)) = 0)"
  by (auto simp: apply_damage_def Let_def)

lemma npc_apply_damage_hp: "npc_hp (snd (npc_apply_damage d n)) = max 0 (npc_hp n - d)"
  by (simp add: npc_apply_damage_def Let_def)

lemma npc_apply_damage_died:
  "fst (npc_apply_damage d n) = (npc_hp (snd (npc_apply_damage d n)) = 0)"
  by (simp add: npc_apply_damage_def Let_def)

lemma damage_target_result:
  assumes "get_target w tid ty = Some t" "damage_target t tid d w = (died, h, w1)"
  shows "h = max 0 (target_hp_of t - d) \<and> died = (h = 0) \<and>
         (\<exists>t'. get_target w1 tid ty = Some t' \<and> target_hp_of t' = h)"
proof (cases t)
  case (PlayerTarget p)
  with assms(1) have ty: "ty = ''player''" and p: "get_player w tid = Some p"
    by (auto simp: get_target_def split: if_splits)
  from assms(2) PlayerTarget show ?thesis
    by (auto simp: damage_target_def get_target_def ty p get_player_mutate target_hp_of_def
        apply_damage_hp apply_damage_died)
next
  case (NpcTarget n)
  with assms(1) have ty: "ty \<noteq> ''player''" "ty = ''npc''" and n: "get_npc w tid = Some n"
    by (auto simp: get_target_def split: if_splits)
  from assms(2) NpcTarget show ?thesis
    by (auto simp: damage_target_def get_target_def ty n get_npc_mutate target_hp_of_def
        npc_apply_damage_hp npc_apply_damage_died)
qed

lemma get_target_touch:
  assumes "get_target w tid ty = Some t"
  shows "\<exists>t'. get_target (mutate_player k (\<lambda>p. p\<lparr>last_attack_time := c\<rparr>) w) tid ty = Some t'
           \<and> target_hp_of t' = target_hp_of t"
  using assms
  by (auto simp: get_target_def get_player_mutate target_hp_of_def split: if_splits)

subsection \<open>Evaluating the example world\<close>

lemma new_default_player: "new_PlayerEntity k default_character_data = default_player k"
  by (simp add: new_PlayerEntity_def default_character_data_def default_player_def get_or_def
      get_chunk_id_def CHUNK_SIZE_def py_int_def)

lemma example_world_eq:
  "example_world =
     \<lparr>players = [(1, default_player 1), (2, default_player 2)],
      npcs = [(1, \<lparr>entity_id = 1, position = (100, 0, 100), rotation = 0, chunk_id = (2, 2),
                   npc_level = 1, npc_hp = 5, npc_max_hp = 5, npc_attack = 10, npc_defense = 5,
                   npc_spawn_position = (100, 0, 100), npc_last_attack_time = 0\<rparr>)],
      player_chunks = [(2, 2) \<mapsto> [1, 2]], npc_chunks = [(2, 2) \<mapsto> [1]],
      next_npc_instance_id = 2\<rparr>"
  by (simp add: example_world_def run_world_ops_def add_player_def spawn_npc_def
      new_default_player new_NPCEntity_def weak_npc_data_def new_WorldManager_def
      add_to_chunk_def get_or_def default_player_def get_chunk_id_def CHUNK_SIZE_def
      py_int_def Let_def)

lemma players_ok_example: "players_ok (world example_combat)"
  by (simp add: example_combat_def example_world_eq players_ok_def get_all_players_def
      player_ok_def default_player_def)

subsection \<open>Basic attack\<close>

text \<open>
  Claim C5. When \<open>basic_attack\<close> returns a result, the reported hp of the target is not
  negative, it is the hp the target has in the world after the call, it equals
  \<open>max 0 (hp before - damage)\<close> (so damage of at least the remaining hp leaves exactly
  0), and the flag \<open>target_died\<close> holds exactly when that hp is 0.
\<close>

theorem basic_attack_target_hp:
  assumes "basic_attack attacker_id target_id target_type current_time variance cs
             = (Returned (Some r), cs')"
  shows "0 \<le> ar_target_hp r \<and> (ar_target_died r \<longleftrightarrow> ar_target_hp r = 0) \<and>
         (\<exists>t t'. get_target (world cs) target_id target_type = Some t \<and>
                  get_target (world cs') target_id target_type = Some t' \<and>
                  target_hp_of t' = ar_target_hp r \<and>
                  ar_target_hp r = max 0 (target_hp_of t - ar_damage r) \<and>
                  (target_hp_of t \<le> ar_damage r \<longrightarrow> ar_target_hp r = 0))"
proof -
  from assms obtain attacker t damage died h w1 where
    t: "get_target (world cs) target_id target_type = Some t" and
    d: "damage_target t target_id damage (world cs) = (died, h, w1)" and
    r: "ar_damage r = damage" "ar_target_hp r = h" "ar_target_died r = died" and
    cs': "world cs' = mutate_player attacker_id (\<lambda>p. p\<lparr>last_attack_time := current_time\<rparr>) w1"
    by (auto simp: basic_attack_def split: option.splits if_splits sum.splits prod.splits)
  from damage_target_result [OF t d] obtain t1 where
    h: "h = max 0 (target_hp_of t - damage)" "died = (h = 0)" and
    t1: "get_target w1 target_id target_type = Some t1" "target_hp_of t1 = h"
    by auto
  from get_target_touch [OF t1(1), of attacker_id current_time] obtain t' where
    "get_target (world cs') target_id target_type = Some t'" "target_hp_of t' = h"
    using t1(2) cs' by auto
  with t h r show ?thesis by auto
qed

lemma basic_attack_example:
  "fst (basic_attack 1 1 ''npc'' 10 1 example_combat) =
     Returned (Some \<lparr>ar_attacker_id = 1, ar_target_id = 1, ar_target_type = ''npc'',
        ar_damage = 9, ar_target_hp = 0, ar_target_died = True\<rparr>)"
  by (simp add: basic_attack_def example_combat_def example_world_eq get_player_def get_npc_def
      default_player_def can_attack_def ATTACK_COOLDOWN_def get_target_def target_position_def
      target_defense_def target_level_def ATTACK_RANGE_MELEE_def calculate_distance_def
      calculate_damage_def DamageType_PHYSICAL_def DamageType_TRUE_def clamp_def py_int_def
      damage_target_def npc_apply_damage_def mutate_npc_def mutate_player_def Let_def)

theorem basic_attack_target_hp_witness:
  "fst (basic_attack 1 1 ''npc'' 10 1 example_combat) =
     Returned (Some \<lparr>ar_attacker_id = 1, ar_target_id = 1, ar_target_type = ''npc'',
        ar_damage = 9, ar_target_hp = 0, ar_target_died = True\<rparr>) \<and>
   (\<exists>t t'. get_target (world example_combat) 1 ''npc'' = Some t \<and>
      get_target (world (snd (basic_attack 1 1 ''npc'' 10 1 example_combat))) 1 ''npc'' = Some t'
      \<and> target_hp_of t' = 0 \<and> 0 = max 0 (target_hp_of t - 9))"
proof -
  have h: "basic_attack 1 1 ''npc'' 10 1 example_combat =
      (Returned (Some \<lparr>ar_attacker_id = 1, ar_target_id = 1, ar_target_type = ''npc'',
          ar_damage = 9, ar_target_hp = 0, ar_target_died = True\<rparr>),
       snd (basic_attack 1 1 ''npc'' 10 1 example_combat))"
    using basic_attack_example by (simp add: prod_eq_iff)
  from basic_attack_target_hp [OF h] basic_attack_example show ?thesis
    by auto
qed

subsection \<open>Bounds on hit points and mana\<close>

lemma apply_damage_ok: "player_ok p \<Longrightarrow> 0 \<le> d \<Longrightarrow> player_ok (snd (apply_damage d p))"
  by (auto simp: player_ok_def apply_damage_def Let_def)

lemma heal_ok: "player_ok p \<Longrightarrow> 0 \<le> a \<Longrightarrow> player_ok (heal a p)"
  by (auto simp: player_ok_def heal_def)

lemma restore_mp_ok: "player_ok p \<Longrightarrow> 0 \<le> a \<Longrightarrow> player_ok (restore_mp a p)"
  by (auto simp: player_ok_def restore_mp_def)

lemma list_all_map_entry:
  "list_all P (map snd al) \<Longrightarrow> (\<And>x. P x \<Longrightarrow> P (f x))
   \<Longrightarrow> list_all P (map snd (AList.map_entry k f al))"
  by (induction al) auto

lemma list_all_map_entry_at:
  "list_all P (map snd al) \<Longrightarrow> map_of al k = Some v \<Longrightarrow> P (f v)
   \<Longrightarrow> list_all P (map snd (AList.map_entry k f al))"
  by (induction al) (auto split: if_splits)

lemma list_all_update:
  "list_all P (map snd al) \<Longrightarrow> P v \<Longrightarrow> list_all P (map snd (AList.update k v al))"
  by (induction al) auto

lemma list_all_map_of:
  "list_all P (map snd al) \<Longrightarrow> map_of al k = Some v \<Longrightarrow> P v"
  by (induction al) (auto split: if_splits)

lemma players_ok_mutate:
  "players_ok w \<Longrightarrow> (\<And>p. player_ok p \<Longrightarrow> player_ok (f p))
   \<Longrightarrow> players_ok (mutate_player k f w)"
  by (simp add: players_ok_def get_all_players_def mutate_player_def list_all_map_entry)

lemma players_ok_mutate_at:
  "players_ok w \<Longrightarrow> get_player w k = Some p \<Longrightarrow> player_ok (f p)
   \<Longrightarrow> players_ok (mutate_player k f w)"
  by (simp add: players_ok_def get_all_players_def mutate_player_def get_player_def
      list_all_map_entry_at)

lemma players_ok_mutate_npc [simp]: "players_ok (mutate_npc k f w) = players_ok w"
  by (simp add: players_ok_def get_all_players_def mutate_npc_def)

lemma players_ok_get: "players_ok w \<Longrightarrow> get_player w k = Some p \<Longrightarrow> player_ok p"
  by (auto simp: players_ok_def get_all_players_def get_player_def dest: list_all_map_of)

lemma players_aoe_loop: "players (snd (aoe_loop tid d ns w)) = players w"
  by (induction ns arbitrary: w) (auto simp: Let_def mutate_npc_def split: option.splits)

lemma players_ok_aoe_loop: "players_ok (snd (aoe_loop tid d ns w)) = players_ok w"
  by (simp add: players_ok_def get_all_players_def players_aoe_loop)

lemma players_ok_update_position:
  "players_ok w \<Longrightarrow> players_ok (update_player_position k x y z rot w)"
proof -
  have pos: "player_ok (update_position x y z rot p) = player_ok p" for p :: PlayerEntity
    by (simp add: player_ok_def update_position_def)
  assume "players_ok w"
  then show ?thesis
    by (auto simp: update_player_position_def players_ok_def get_all_players_def Let_def pos
        split: option.splits intro!: list_all_update dest: list_all_map_of)
qed

lemma damage_target_ok:
  assumes "players_ok w" "0 \<le> d"
  shows "players_ok (snd (snd (damage_target t tid d w)))"
  using assms
  by (cases t) (auto simp: damage_target_def intro!: players_ok_mutate apply_damage_ok)

lemma skill_database_nonneg:
  assumes "get_skill_data sid = Some sd"
  shows "0 \<le> get_or (sk_mp_cost sd) 0 \<and> 0 \<le> get_or (sk_heal_amount sd) 100 \<and>
         0 \<le> get_or (sk_damage_multiplier sd) 1"
  using assms
  by (auto simp: get_skill_data_def SKILL_DATABASE_def damage_skill_def get_or_def
      split: if_splits)

lemma calculate_damage_nonneg:
  assumes "calculate_damage (a, la) ds m t v = Inr d" "0 \<le> a" "0 \<le> m"
  shows "0 \<le> d"
  using assms
  by (auto simp: calculate_damage_def Let_def split: if_splits intro!: py_int_nonneg)

lemma use_skill_effect_ok:
  assumes "players_ok (world cs)" "0 \<le> attack caster" "get_skill_data sid = Some sd"
  shows "players_ok (world (snd (use_skill_effect caster cid sid sd tgt ty v cs)))"
proof -
  note sk = skill_database_nonneg [OF assms(3)]
  show ?thesis
  proof (cases "sid = SkillType_HEAL")
    case True
    then show ?thesis using assms sk
      by (auto simp: use_skill_effect_def Let_def intro!: players_ok_mutate heal_ok)
  next
    case False
    have dmg: "players_ok (snd (snd (damage_target t tid d (world cs))))"
      if "calculate_damage (attack caster, level caster) ds
            (get_or (sk_damage_multiplier sd) 1) dt v = Inr d" for t tid d ds dt
      using calculate_damage_nonneg [OF that] assms sk by (auto intro!: damage_target_ok)
    show ?thesis using False assms(1)
      by (auto simp: use_skill_effect_def Let_def players_ok_aoe_loop split_beta dmg
          split: option.splits sum.splits)
  qed
qed

lemma use_skill_ok:
  assumes "players_ok (world cs)"
    and "case get_player (world cs) cid of None \<Rightarrow> True | Some c \<Rightarrow> 0 \<le> attack c"
  shows "players_ok (world (snd (use_skill cid sid tgt ty now v cs)))"
proof (cases "get_player (world cs) cid")
  case None
  then show ?thesis using assms by (simp add: use_skill_def)
next
  case (Some caster)
  then have att: "0 \<le> attack caster" using assms(2) by simp
  have cok: "player_ok caster" using assms(1) Some by (rule players_ok_get)
  show ?thesis
  proof (cases "get_skill_data sid")
    case None
    then show ?thesis using assms Some by (simp add: use_skill_def)
  next
    case sd: (Some sd)
    note sk = skill_database_nonneg [OF sd]
    let ?cost = "get_or (sk_mp_cost sd) 0"
    let ?cs2 = "set_skill_cooldown cid sid now (get_or (sk_cooldown sd) 0)
                 (cs\<lparr>world := mutate_player cid (\<lambda>p. p\<lparr>mp := mp p - ?cost\<rparr>) (world cs)\<rparr>)"
    have step: "players_ok (world ?cs2)" if "?cost \<le> mp caster"
    proof -
      have "player_ok (caster\<lparr>mp := mp caster - ?cost\<rparr>)"
        using cok that sk by (auto simp: player_ok_def)
      with assms(1) Some show ?thesis
        by (auto simp: set_skill_cooldown_def intro: players_ok_mutate_at)
    qed
    have eff: "players_ok (world (snd (use_skill_effect (caster\<lparr>mp := mp caster - ?cost\<rparr>)
                 cid sid sd tgt ty v ?cs2)))" if "?cost \<le> mp caster"
      using step [OF that] att sd by (intro use_skill_effect_ok) auto
    show ?thesis
      using assms(1) Some sd eff by (auto simp: use_skill_def Let_def)
  qed
qed

lemma respawn_player_ok:
  assumes "players_ok (world cs)"
  shows "players_ok (world (snd (respawn_player cid pos cs)))"
proof -
  have "player_ok (p\<lparr>is_dead := False, hp := max_hp p, mp := max_mp p\<rparr>)"
    if "player_ok p" for p
    using that by (auto simp: player_ok_def)
  then show ?thesis using assms
    by (auto simp: respawn_player_def split: option.splits prod.splits
        intro!: players_ok_update_position players_ok_mutate)
qed

lemma respawn_player_full:
  assumes "get_player (world cs) cid = Some p"
  shows "\<exists>q. get_player (world (snd (respawn_player cid pos cs))) cid = Some q \<and>
             hp q = max_hp p \<and> mp q = max_mp p \<and> max_hp q = max_hp p \<and> max_mp q = max_mp p"
  using assms
  by (auto simp: respawn_player_def update_player_position_def get_player_def mutate_player_def
      map_of_map_entry update_conv' Let_def update_position_def split: prod.splits)

text \<open>
  Claim C10. Write \<open>player_ok p\<close> for \<open>0 \<le> hp \<le> max_hp\<close> and \<open>0 \<le> mp \<le> max_mp\<close>.
  For a player within the bounds and an amount that is not negative, \<open>apply_damage\<close>,
  \<open>heal\<close> and \<open>restore_mp\<close> keep the player within the bounds, with hp
  \<open>max 0 (hp - amount)\<close>, hp \<open>min max_hp (hp + amount)\<close> and mp
  \<open>min max_mp (mp + amount)\<close>. In a world whose players are all within the bounds,
  every player is within the bounds after \<open>use_skill\<close> (whatever its arguments and
  whether it returns a result, returns \<open>None\<close> or raises; the caster's attack is not
  negative) and after \<open>respawn_player\<close>, which leaves the respawned player with
  \<open>hp = max_hp\<close> and \<open>mp = max_mp\<close>.
\<close>

theorem player_bounds_preserved:
  assumes "player_ok p" and "0 \<le> amount" and "players_ok (world cs)"
    and "case get_player (world cs) caster_id of None \<Rightarrow> True | Some c \<Rightarrow> 0 \<le> attack c"
  shows "player_ok (snd (apply_damage amount p)) \<and>
         hp (snd (apply_damage amount p)) = max 0 (hp p - amount) \<and>
         player_ok (heal amount p) \<and> hp (heal amount p) = min (max_hp p) (hp p + amount) \<and>
         player_ok (restore_mp amount p) \<and>
         mp (restore_mp amount p) = min (max_mp p) (mp p + amount) \<and>
         players_ok (world (snd (use_skill caster_id skill_id target_id target_type
                                   current_time variance cs))) \<and>
         players_ok (world (snd (respawn_player character_id spawn_position cs))) \<and>
         (\<forall>q. get_player (world cs) character_id = Some q \<longrightarrow>
            (\<exists>q'. get_player (world (snd (respawn_player character_id spawn_position cs)))
                     character_id = Some q' \<and>
                   hp q' = max_hp q' \<and> mp q' = max_mp q' \<and>
                   max_hp q' = max_hp q \<and> max_mp q' = max_mp q))"
proof -
  have resp: "\<exists>q'. get_player (world (snd (respawn_player character_id spawn_position cs)))
                     character_id = Some q' \<and>
                   hp q' = max_hp q' \<and> mp q' = max_mp q' \<and>
                   max_hp q' = max_hp q \<and> max_mp q' = max_mp q"
    if "get_player (world cs) character_id = Some q" for q
    using respawn_player_full [OF that, of spawn_position] by auto
  have vals: "hp (heal amount p) = min (max_hp p) (hp p + amount)"
    "mp (restore_mp amount p) = min (max_mp p) (mp p + amount)"
    by (simp_all add: heal_def restore_mp_def)
  show ?thesis
    using assms resp vals
    by (simp add: apply_damage_ok heal_ok restore_mp_ok use_skill_ok respawn_player_ok
        apply_damage_hp)
qed

theorem player_bounds_preserved_witness:
  "player_ok (default_player 1) \<and> players_ok (world example_combat) \<and>
   player_ok (snd (apply_damage 130 (default_player 1))) \<and>
   hp (snd (apply_damage 130 (default_player 1))) = 0 \<and>
   player_ok (heal 30 (default_player 1)) \<and> hp (heal 30 (default_player 1)) = 100 \<and>
   player_ok (restore_mp 30 (default_player 1)) \<and>
   players_ok (world (snd (use_skill 1 0 (Some 2) ''player'' 100 1 example_combat))) \<and>
   players_ok (world (snd (respawn_player 1 (0, 0, 0) example_combat)))"
proof -
  have p: "player_ok (default_player 1)"
    by (simp add: player_ok_def default_player_def)
  have a: "case get_player (world example_combat) 1 of None \<Rightarrow> True | Some c \<Rightarrow> 0 \<le> attack c"
    by (simp add: example_combat_def example_world_eq get_player_def default_player_def)
  have d: "hp (default_player 1) = 100" "max_hp (default_player 1) = 100"
    by (simp_all add: default_player_def)
  from player_bounds_preserved [OF p _ players_ok_example a, of 130 0 "Some 2" "''player''" 100 1]
    player_bounds_preserved [OF p _ players_ok_example a, of 30 0 "Some 2" "''player''" 100 1
      1 "(0, 0, 0)"]
    p players_ok_example d
  show ?thesis by simp
qed

subsection \<open>Skill use that fails after the mana was spent\<close>

text \<open>
  Claim C3 (whenever \<open>use_skill\<close> returns \<open>None\<close>, the caster's mp and cooldown entries
  are what they were). In the code the checks of the target (missing target id, target
  not found, target out of range) come after "Consume MP" and "Set cooldown". Player 1
  of the example world (50 mp, no cooldown) uses Slash (skill 0, 10 mp, 3 s cooldown)
  at time 100 without a target: the call returns \<open>None\<close>, and afterwards the player has
  40 mp and a cooldown for Slash until 103.
\<close>

theorem use_skill_none_spends_mp:
  "fst (use_skill 1 0 None ''npc'' 100 1 example_combat) = Returned None \<and>
   map_option mp (get_player (world example_combat) 1) = Some 50 \<and>
   map_option mp
     (get_player (world (snd (use_skill 1 0 None ''npc'' 100 1 example_combat))) 1) = Some 40 \<and>
   active_cooldowns example_combat 1 = None \<and>
   active_cooldowns (snd (use_skill 1 0 None ''npc'' 100 1 example_combat)) 1 \<noteq> None \<and>
   the (active_cooldowns (snd (use_skill 1 0 None ''npc'' 100 1 example_combat)) 1) 0
     = Some 103"
  by (simp add: use_skill_def use_skill_effect_def example_combat_def example_world_eq
      get_player_def default_player_def get_skill_data_def SKILL_DATABASE_def damage_skill_def
      get_or_def check_skill_cooldown_def set_skill_cooldown_def mutate_player_def
      SkillType_HEAL_def Let_def)

subsection \<open>Frame round trip\<close>


lemma length_be_bytes [simp]: "length (be_bytes n v) = n"
  by (induction n) auto

lemma foldl_be_shift:
  "foldl (\<lambda>acc b. acc * 256 + uint b) a (bs :: bytes)
     = a * 256 ^ length bs + foldl (\<lambda>acc b. acc * 256 + uint b) 0 bs"
proof (induction bs arbitrary: a)
  case Nil
  then show ?case by simp
next
  case (Cons b bs)
  let ?f = "\<lambda>acc (b :: 8 word). acc * 256 + uint b"
  have "foldl ?f a (b # bs) = (a * 256 + uint b) * 256 ^ length bs + foldl ?f 0 bs"
    using Cons.IH [of "a * 256 + uint b"] by simp
  moreover have "foldl ?f 0 (b # bs) = uint b * 256 ^ length bs + foldl ?f 0 bs"
    using Cons.IH [of "uint b"] by simp
  ultimately show ?case by (simp add: algebra_simps)
qed

lemma be_int_Cons: "be_int (b # bs) = uint b * 256 ^ length bs + be_int bs"
  unfolding be_int_def using foldl_be_shift [of "uint b" bs] by simp

lemma be_int_be_bytes: "be_int (be_bytes n v) = v mod 256 ^ n"
proof (induction n)
  case 0
  then show ?case by (simp add: be_int_def)
next
  case (Suc n)
  have "uint (word_of_int (v div 256 ^ n) :: 8 word) = (v div 256 ^ n) mod 256"
    by (simp add: uint_word_of_int)
  then have "be_int (be_bytes (Suc n) v) = (v div 256 ^ n) mod 256 * 256 ^ n + v mod 256 ^ n"
    by (simp add: be_int_Cons Suc.IH)
  also have "\<dots> = v mod (256 ^ n * 256)"
    using zmod_zmult2_eq [of 256 v "256 ^ n"] by (simp add: mult.commute)
  finally show ?case by (simp add: mult.commute)
qed

lemma be_int_pack_field:
  "pack_field n v = Inr bs \<Longrightarrow> be_int bs = v \<and> length bs = n"
  by (auto simp: pack_field_def be_int_be_bytes split: if_splits)

lemma checksum_range: "0 \<le> calculate_checksum d \<and> calculate_checksum d < 256"
proof -
  have "calculate_checksum d = sum_list (map uint d) mod 256"
    unfolding calculate_checksum_def
    using take_bit_eq_mask [of 8 "sum_list (map uint d)"]
    by (simp add: take_bit_eq_mod mask_eq_exp_minus_1)
  then show ?thesis by simp
qed

lemma checksum_nonneg [simp]: "0 \<le> calculate_checksum d"
  using checksum_range [of d] by simp

lemma checksum_less [simp]: "calculate_checksum d < 256"
  using checksum_range [of d] by simp

declare be_bytes.simps [simp del]

lemma struct_pack_header:
  assumes "in_range 2 t" "in_range 4 l" "in_range 2 sq" "in_range 1 fl" "in_range 1 ck"
  shows "struct_pack HEADER_FIELDS [t, l, sq, fl, ck] =
           Inr (be_bytes 2 t @ be_bytes 4 l @ be_bytes 2 sq @ be_bytes 1 fl @ be_bytes 1 ck)"
  using assms by (simp add: HEADER_FIELDS_def pack_field_def in_range_def)

lemma struct_unpack_header:
  assumes "in_range 2 t" "in_range 4 l" "in_range 2 sq" "in_range 1 fl" "in_range 1 ck"
  shows "struct_unpack HEADER_FIELDS
           (be_bytes 2 t @ be_bytes 4 l @ be_bytes 2 sq @ be_bytes 1 fl @ be_bytes 1 ck)
         = [t, l, sq, fl, ck]"
  using assms by (simp add: HEADER_FIELDS_def be_int_be_bytes in_range_def)

lemma deserialize_frame:
  assumes "length hdr = HEADER_SIZE"
    and "struct_unpack HEADER_FIELDS hdr = [t, int (length pl), sq, fl, calculate_checksum pl]"
  shows "deserialize zd (hdr @ pl) =
     (case (if fl AND 1 \<noteq> 0 then zd pl else Some pl) of
        None \<Rightarrow> Inl ZlibError
      | Some pl1 \<Rightarrow>
          if t \<notin> set PacketType_values then Inl (ValueError ''not a valid PacketType'')
          else Inr \<lparr>packet_type = t, payload = pl1, compressed = (fl AND 1 \<noteq> 0),
                    encrypted = (fl AND 2 \<noteq> 0), sequence = sq\<rparr>)"
  using assms by (simp add: deserialize_def Let_def)

text \<open>
  The first frame of a packet. For a packet whose type is one of the \<open>PacketType\<close>
  values, whose payload has at most \<open>MAX_PAYLOAD_SIZE\<close> bytes, which is not yet marked
  compressed (as the constructor leaves it) and whose sequence number fits the two-byte
  field, \<open>serialize\<close> succeeds and \<open>deserialize\<close> of its bytes succeeds with the same
  type and the same payload (and the same sequence number and encryption flag); the
  compressed flag of the result, bit 0 of the flags byte, is set exactly when the
  payload is longer than 512 bytes. Of the library's compressor the proof uses, for a
  payload longer than 512 bytes, that decompressing the compressed payload gives the
  payload back and that the compressed payload is shorter than 2^32 bytes.
\<close>

lemma first_frame_roundtrip:
  assumes "packet_type p \<in> set PacketType_values"
    and "length (payload p) \<le> MAX_PAYLOAD_SIZE"
    and "\<not> compressed p" and "0 \<le> sequence p" and "sequence p < 65536"
    and "512 < length (payload p) \<longrightarrow>
           zlib_decompress (zlib_compress (payload p)) = Some (payload p) \<and>
           length (zlib_compress (payload p)) < 2 ^ 32"
  shows "\<exists>data p1 q. serialize zlib_compress p = Inr (data, p1) \<and>
           deserialize zlib_decompress data = Inr q \<and>
           packet_type q = packet_type p \<and> payload q = payload p \<and>
           sequence q = sequence p \<and> encrypted q = encrypted p \<and>
           compressed q = (512 < length (payload p)) \<and>
           length data = HEADER_SIZE +
             (if 512 < length (payload p) then length (zlib_compress (payload p))
              else length (payload p))"
proof -
  have ty: "in_range 2 (packet_type p)"
    using assms(1) by (auto simp: PacketType_values_def in_range_def)
  have sq: "in_range 2 (sequence p)"
    using assms(4,5) by (simp add: in_range_def)
  define big where "big = (512 < length (payload p))"
  define pl where "pl = (if big then zlib_compress (payload p) else payload p)"
  define fl :: int where "fl = (if big then 1 else 0) + (if encrypted p then 2 else 0)"
  define hdr where "hdr = be_bytes 2 (packet_type p) @ be_bytes 4 (int (length pl))
      @ be_bytes 2 (sequence p) @ be_bytes 1 fl @ be_bytes 1 (calculate_checksum pl)"
  have len: "in_range 4 (int (length pl))"
    using assms(2,6) by (auto simp: pl_def big_def MAX_PAYLOAD_SIZE_def in_range_def)
  have fl: "in_range 1 fl" by (auto simp: fl_def in_range_def)
  have ck: "in_range 1 (calculate_checksum pl)" by (simp add: in_range_def)
  have flags: "(if encrypted p then (if big then 0 OR 1 else 0) OR 2
                else (if big then 0 OR (1::int) else 0)) = fl"
    by (simp add: fl_def)
  have ser: "serialize zlib_compress p =
      Inr (hdr @ pl, if big then p\<lparr>compressed := True\<rparr> else p)"
    using assms(3) struct_pack_header [OF ty len sq fl ck]
    by (cases big; cases "encrypted p")
       (simp_all add: serialize_def Let_def big_def [symmetric] pl_def fl_def hdr_def)
  have bits: "(fl AND 1 \<noteq> 0) = big" "(fl AND 2 \<noteq> 0) = encrypted p"
    by (auto simp: fl_def)
  have dec: "(if fl AND 1 \<noteq> 0 then zlib_decompress pl else Some pl) = Some (payload p)"
    using assms(6) by (auto simp: bits pl_def big_def)
  have hl: "length hdr = HEADER_SIZE"
    by (simp add: hdr_def HEADER_SIZE_def HEADER_FIELDS_def)
  have un: "struct_unpack HEADER_FIELDS hdr
      = [packet_type p, int (length pl), sequence p, fl, calculate_checksum pl]"
    unfolding hdr_def by (rule struct_unpack_header [OF ty len sq fl ck])
  have des: "deserialize zlib_decompress (hdr @ pl) =
      Inr \<lparr>packet_type = packet_type p, payload = payload p,
           compressed = big, encrypted = encrypted p, sequence = sequence p\<rparr>"
    using deserialize_frame [OF hl un, of zlib_decompress, unfolded dec] assms(1)
    by (simp add: bits)
  show ?thesis
    unfolding ser using des hl
    by (auto simp: pl_def big_def)
qed


lemma first_frame_roundtrip_example:
  "(\<exists>data p1 q.
      serialize stored_compress
        \<lparr>packet_type = 600, payload = [1, 2, 3], compressed = False, encrypted = False,
         sequence = 0\<rparr> = Inr (data, p1) \<and>
      deserialize stored_decompress data = Inr q \<and> packet_type q = 600 \<and>
      payload q = [1, 2, 3] \<and> \<not> compressed q \<and> length data = 13) \<and>
   (\<exists>data p1 q.
      serialize stored_compress
        \<lparr>packet_type = 600, payload = replicate 513 7, compressed = False,
         encrypted = False, sequence = 0\<rparr> = Inr (data, p1) \<and>
      deserialize stored_decompress data = Inr q \<and> packet_type q = 600 \<and>
      payload q = replicate 513 7 \<and> compressed q \<and> length data = 524)"
proof -
  have t: "(600::int) \<in> set PacketType_values"
    by (simp add: PacketType_values_def)
  have z: "stored_decompress (stored_compress bs) = Some bs"
          "length (stored_compress bs) = Suc (length bs)" for bs
    by (simp_all add: stored_compress_def stored_decompress_def)
  from first_frame_roundtrip
         [of "\<lparr>packet_type = 600, payload = [1, 2, 3], compressed = False, encrypted = False,
               sequence = 0\<rparr>" stored_decompress stored_compress]
       first_frame_roundtrip
         [of "\<lparr>packet_type = 600, payload = replicate 513 7, compressed = False,
               encrypted = False, sequence = 0\<rparr>" stored_decompress stored_compress]
       t z
  show ?thesis
    by (simp add: MAX_PAYLOAD_SIZE_def HEADER_SIZE_def HEADER_FIELDS_def) blast
qed

text \<open>
  Frames of the 513-byte packet. \<open>serialize\<close> marks the object compressed and leaves
  its payload as it was, so a second call finds the flag set, skips the compressor and
  frames the uncompressed payload with flags bit 0 set.
\<close>

lemma be_bytes_numeral:
  "be_bytes (Suc 0) v = [word_of_int v]"
  "be_bytes 2 v = [word_of_int (v div 256), word_of_int v]"
  "be_bytes 4 v = [word_of_int (v div 16777216), word_of_int (v div 65536),
                   word_of_int (v div 256), word_of_int v]"
proof -
  have n: "(2::nat) = Suc (Suc 0)" "(4::nat) = Suc (Suc (Suc (Suc 0)))"
    by simp_all
  show "be_bytes (Suc 0) v = [word_of_int v]"
    by (simp add: be_bytes.simps)
  show "be_bytes 2 v = [word_of_int (v div 256), word_of_int v]"
    unfolding n by (simp add: be_bytes.simps)
  show "be_bytes 4 v = [word_of_int (v div 16777216), word_of_int (v div 65536),
                   word_of_int (v div 256), word_of_int v]"
    unfolding n by (simp add: be_bytes.simps)
qed

lemma checksum_replicate: "calculate_checksum (replicate 513 7) = 7"
  by (simp add: calculate_checksum_def sum_list_replicate map_replicate)

lemma checksum_stored: "calculate_checksum (120 # replicate 513 7) = 127"
  by (simp add: calculate_checksum_def sum_list_replicate map_replicate)

lemma serialize_marks_compressed:
  assumes "512 < length (payload p)" and "\<not> compressed p"
    and "serialize zlib_compress p = Inr (data, p1)"
  shows "p1 = p\<lparr>compressed := True\<rparr>"
  using assms by (auto simp: serialize_def Let_def split: sum.splits)

lemma first_serialize:
  "serialize stored_compress big_packet = Inr (first_frame, big_packet\<lparr>compressed := True\<rparr>)"
  by (simp add: serialize_def Let_def big_packet_def first_frame_def stored_compress_def
      HEADER_FIELDS_def pack_field_def checksum_stored be_bytes_numeral)

lemma first_unpack:
  "struct_unpack HEADER_FIELDS [2, 88, 0, 0, 2, 2, 0, 0, 1, 127]
     = [600, int (length (120 # replicate 513 (7::8 word))), 0, 1,
        calculate_checksum (120 # replicate 513 7)]"
  by (simp add: HEADER_FIELDS_def be_int_def checksum_stored)

lemma first_deserialize:
  "deserialize stored_decompress first_frame = Inr (big_packet\<lparr>compressed := True\<rparr>)"
  unfolding first_frame_def
  using deserialize_frame [OF _ first_unpack, of stored_decompress]
  by (simp add: HEADER_SIZE_def HEADER_FIELDS_def PacketType_values_def stored_decompress_def
      big_packet_def)

lemma second_serialize:
  "serialize zlib_compress (big_packet\<lparr>compressed := True\<rparr>)
     = Inr (second_frame, big_packet\<lparr>compressed := True\<rparr>)"
  by (simp add: serialize_def Let_def big_packet_def second_frame_def HEADER_FIELDS_def
      pack_field_def checksum_replicate be_bytes_numeral)

lemma second_unpack:
  "struct_unpack HEADER_FIELDS [2, 88, 0, 0, 2, 1, 0, 0, 1, 7]
     = [600, int (length (replicate 513 (7::8 word))), 0, 1, calculate_checksum (replicate 513 7)]"
  by (simp add: HEADER_FIELDS_def be_int_def checksum_replicate)

lemma second_deserialize:
  "deserialize zlib_decompress second_frame =
     (case zlib_decompress (replicate 513 7) of
        None \<Rightarrow> Inl ZlibError
      | Some pl \<Rightarrow> Inr \<lparr>packet_type = 600, payload = pl, compressed = True,
                        encrypted = False, sequence = 0\<rparr>)"
  unfolding second_frame_def
  using deserialize_frame [OF _ second_unpack, of zlib_decompress]
  by (cases "zlib_decompress (replicate 513 7)")
     (simp_all add: HEADER_SIZE_def HEADER_FIELDS_def PacketType_values_def)

lemma stored_decompress_raw: "stored_decompress (replicate 513 7) = None"
proof -
  have "replicate 513 (7::8 word) = 7 # replicate 512 7"
    by (simp add: replicate_Suc [symmetric] del: replicate_Suc)
  then show ?thesis by (simp add: stored_decompress_def)
qed

lemma sequence_out_of_range:
  "serialize zlib_compress
     \<lparr>packet_type = 600, payload = [1, 2, 3], compressed = False, encrypted = False,
      sequence = 65536\<rparr> = Inl StructError"
  by (simp add: serialize_def Let_def HEADER_FIELDS_def pack_field_def)

text \<open>
  Claim C4 (for every packet type of \<open>PacketType\<close> and every payload of at most
  \<open>MAX_PAYLOAD_SIZE\<close> bytes, deserializing the bytes of a serialized packet with that
  type and payload gives the type and the payload back, with and without compression).
  The code does not do so for every such packet. The packet of type 600 with a payload
  of 513 bytes is serialized twice, as \<open>broadcast_packet\<close> does for two sessions. The
  first call compresses, marks the object compressed and its frame is read back. The
  second call, whatever the compressor, frames the 513 uncompressed bytes with flags
  bit 0 set, and \<open>deserialize\<close> hands these bytes to the decompressor: it raises when
  the decompressor rejects them, as \<open>zlib.decompress\<close> does for a stream of bytes 7
  and as the stand-in does, and otherwise returns what the decompressor made of them.
  And a packet of type 600 with a payload of three bytes and the sequence number 65536,
  which \<open>send_packet\<close> assigns to the 65537th packet of a session, is not serialized
  at all: \<open>struct.pack\<close> raises.
\<close>

theorem reserialized_packet_not_recovered:
  "serialize stored_compress big_packet = Inr (first_frame, big_packet\<lparr>compressed := True\<rparr>) \<and>
   deserialize stored_decompress first_frame = Inr (big_packet\<lparr>compressed := True\<rparr>) \<and>
   payload (big_packet\<lparr>compressed := True\<rparr>) = replicate 513 7 \<and>
   serialize zlib_compress (big_packet\<lparr>compressed := True\<rparr>)
     = Inr (second_frame, big_packet\<lparr>compressed := True\<rparr>) \<and>
   deserialize zlib_decompress second_frame =
     (case zlib_decompress (replicate 513 7) of
        None \<Rightarrow> Inl ZlibError
      | Some pl \<Rightarrow> Inr \<lparr>packet_type = 600, payload = pl, compressed = True,
                        encrypted = False, sequence = 0\<rparr>) \<and>
   deserialize stored_decompress second_frame = Inl ZlibError \<and>
   serialize zlib_compress
     \<lparr>packet_type = 600, payload = [1, 2, 3], compressed = False, encrypted = False,
      sequence = 65536\<rparr> = Inl StructError"
proof -
  have "payload (big_packet\<lparr>compressed := True\<rparr>) = replicate 513 7"
    by (simp add: big_packet_def)
  moreover have "deserialize stored_decompress second_frame = Inl ZlibError"
    by (simp add: second_deserialize stored_decompress_raw)
  ultimately show ?thesis
    by (simp only: first_serialize first_deserialize second_serialize second_deserialize
        sequence_out_of_range simp_thms)
qed

subsection \<open>Spatial index\<close>

lemma py_int_diff:
  assumes "a - b \<le> d" "0 \<le> d"
  shows "py_int a - py_int b \<le> \<lfloor>d\<rfloor> + 1"
proof -
  have a: "real_of_int (py_int a) \<le> a \<or> (a < 0 \<and> real_of_int (py_int a) < a + 1)"
    by (auto simp: py_int_def; linarith)
  have b: "b \<le> real_of_int (py_int b) \<or> (0 \<le> b \<and> b - 1 < real_of_int (py_int b))"
    by (auto simp: py_int_def; linarith)
  have ab: "py_int a - py_int b \<le> 0" if "a < 0" "0 \<le> b"
  proof -
    have "\<lceil>a\<rceil> \<le> 0" using that(1) by (simp add: ceiling_le_zero)
    moreover have "0 \<le> \<lfloor>b\<rfloor>" using that(2) by simp
    moreover have "py_int a = \<lceil>a\<rceil>" "py_int b = \<lfloor>b\<rfloor>"
      using that by (simp_all add: py_int_def)
    ultimately show ?thesis by linarith
  qed
  show ?thesis
  proof (cases "a < 0 \<and> 0 \<le> b")
    case True
    then have "py_int a - py_int b \<le> 0" using ab by simp
    moreover have "0 \<le> \<lfloor>d\<rfloor>" using assms(2) by simp
    ultimately show ?thesis by linarith
  next
    case False
    then have "real_of_int (py_int a - py_int b) < d + 1"
      using a b assms by auto
    then show ?thesis by linarith
  qed
qed


lemma chunk_coordinate_close:
  assumes "\<bar>x1 - x2\<bar> \<le> r" "0 \<le> r"
  shows "\<bar>py_int (x1 / CHUNK_SIZE) - py_int (x2 / CHUNK_SIZE)\<bar> \<le> py_int (r / CHUNK_SIZE) + 1"
proof -
  have d: "0 \<le> r / CHUNK_SIZE" using assms(2) by (simp add: CHUNK_SIZE_def)
  have "x1 / CHUNK_SIZE - x2 / CHUNK_SIZE \<le> r / CHUNK_SIZE"
       "x2 / CHUNK_SIZE - x1 / CHUNK_SIZE \<le> r / CHUNK_SIZE"
    using assms(1) by (simp_all add: CHUNK_SIZE_def field_simps)
  from py_int_diff [OF this(1) d] py_int_diff [OF this(2) d] d
  show ?thesis by (simp add: py_int_def)
qed

lemma abs_le_distance:
  "\<bar>x1 - x2\<bar> \<le> calculate_distance (x1, y1, z1) (x2, y2, z2)"
  "\<bar>z1 - z2\<bar> \<le> calculate_distance (x1, y1, z1) (x2, y2, z2)"
proof -
  let ?s = "(x1 - x2) * (x1 - x2) + (y1 - y2) * (y1 - y2) + (z1 - z2) * (z1 - z2)"
  have d: "calculate_distance (x1, y1, z1) (x2, y2, z2) = sqrt ?s"
    by (simp add: calculate_distance_def Let_def)
  have "(x1 - x2) * (x1 - x2) \<le> ?s" "(z1 - z2) * (z1 - z2) \<le> ?s"
    by (simp_all add: add_nonneg_nonneg)
  then have "sqrt ((x1 - x2) * (x1 - x2)) \<le> sqrt ?s" "sqrt ((z1 - z2) * (z1 - z2)) \<le> sqrt ?s"
    by (simp_all only: real_sqrt_le_iff)
  then show "\<bar>x1 - x2\<bar> \<le> calculate_distance (x1, y1, z1) (x2, y2, z2)"
    "\<bar>z1 - z2\<bar> \<le> calculate_distance (x1, y1, z1) (x2, y2, z2)"
    unfolding d by simp_all
qed

lemma set_get_surrounding_chunks:
  "set (get_surrounding_chunks c R) =
     {(fst c + dx, snd c + dz) | dx dz. - R \<le> dx \<and> dx \<le> R \<and> - R \<le> dz \<and> dz \<le> R}"
  by (auto simp: get_surrounding_chunks_def)

lemma in_concat_map: "x \<in> set xs \<Longrightarrow> y \<in> set (f x) \<Longrightarrow> y \<in> set (concat (map f xs))"
  by auto

lemma surrounding_chunks_member:
  assumes "\<bar>a - cx\<bar> \<le> R" "\<bar>b - cz\<bar> \<le> R"
  shows "(a, b) \<in> set (get_surrounding_chunks (cx, cz) R)"
proof -
  have dx: "a - cx \<in> set [- R..R]" and dz: "b - cz \<in> set [- R..R]"
    using assms by auto
  have "(a, b) \<in> set (map (\<lambda>dz. (cx + (a - cx), cz + dz)) [- R..R])"
    using dz by (simp only: set_map image_iff) (rule bexI [of _ "b - cz"], simp_all)
  with dx show ?thesis
    unfolding get_surrounding_chunks_def fst_conv snd_conv
    by (rule in_concat_map)
qed

lemma chunk_in_ring:
  assumes "calculate_distance pos pos' \<le> r" "0 \<le> r"
  shows "get_chunk_id pos' CHUNK_SIZE
           \<in> set (get_surrounding_chunks (get_chunk_id pos CHUNK_SIZE)
                    (py_int (r / CHUNK_SIZE) + 1))"
proof -
  obtain x y z where pos: "pos = (x, y, z)" by (cases pos)
  obtain x' y' z' where pos': "pos' = (x', y', z')" by (cases pos')
  have "\<bar>x' - x\<bar> \<le> r" "\<bar>z' - z\<bar> \<le> r"
    using assms(1) abs_le_distance [where ?x1.0 = x and ?x2.0 = x' and ?y1.0 = y and ?y2.0 = y'
        and ?z1.0 = z and ?z2.0 = z']
    by (auto simp: pos pos')
  from chunk_coordinate_close [OF this(1) assms(2)] chunk_coordinate_close [OF this(2) assms(2)]
  show ?thesis
    unfolding pos pos' get_chunk_id_def by (simp add: surrounding_chunks_member)
qed

lemma nearby_in_member:
  assumes "index_ok lookup chunk_dict" "lookup k = Some e"
    "calculate_distance pos (position e) \<le> r" "0 \<le> r"
  shows "e \<in> set (nearby_in lookup chunk_dict pos r)"
proof -
  from assms(1,2) have c: "chunk_id e = get_chunk_id (position e) CHUNK_SIZE"
    and k: "k \<in> set (get_or (chunk_dict (chunk_id e)) [])"
    unfolding index_ok_def by blast+
  have ring: "chunk_id e \<in> set (get_surrounding_chunks (get_chunk_id pos CHUNK_SIZE)
                    (py_int (r / CHUNK_SIZE) + 1))"
    unfolding c by (rule chunk_in_ring [OF assms(3,4)])
  show ?thesis
    unfolding nearby_in_def Let_def
    by (rule in_concat_map [OF ring], rule in_concat_map [OF k]) (simp add: assms(2,3))
qed

lemma add_to_chunk_self: "k \<in> set (get_or (add_to_chunk c k d c) [])"
  by (simp add: add_to_chunk_def get_or_def Let_def)

lemma add_to_chunk_keeps:
  "j \<in> set (get_or (d c') []) \<Longrightarrow> j \<in> set (get_or (add_to_chunk c k d c') [])"
  by (auto simp: add_to_chunk_def get_or_def Let_def)

lemma remove_from_chunk_keeps:
  assumes "j \<noteq> k" "j \<in> set (get_or (d c') [])"
  shows "j \<in> set (get_or (remove_from_chunk c k d c') [])"
proof (cases "d c")
  case None
  then show ?thesis using assms by (simp add: remove_from_chunk_def)
next
  case (Some s)
  show ?thesis
  proof (cases "c' = c")
    case True
    with assms Some have in_rest: "j \<in> set (removeAll k s)" by (simp add: get_or_def)
    have "removeAll k s \<noteq> []"
    proof
      assume e: "removeAll k s = []"
      from in_rest show False unfolding e by simp
    qed
    then show ?thesis using Some True in_rest
      by (simp add: remove_from_chunk_def get_or_def Let_def)
  next
    case False
    then show ?thesis using assms Some
      by (simp add: remove_from_chunk_def get_or_def Let_def)
  qed
qed

lemma index_ok_insert:
  assumes "index_ok l d" "chunk_id e = get_chunk_id (position e) CHUNK_SIZE"
  shows "index_ok (l(k \<mapsto> e)) (add_to_chunk (chunk_id e) k d)"
  unfolding index_ok_def
proof (intro allI impI)
  fix j e'
  assume h: "(l(k \<mapsto> e)) j = Some e'"
  show "chunk_id e' = get_chunk_id (position e') CHUNK_SIZE \<and>
        j \<in> set (get_or (add_to_chunk (chunk_id e) k d (chunk_id e')) [])"
  proof (cases "j = k")
    case True
    with h have "e' = e" by simp
    then show ?thesis using assms(2) True by (simp add: add_to_chunk_self)
  next
    case False
    with h have "l j = Some e'" by simp
    with assms(1) have "chunk_id e' = get_chunk_id (position e') CHUNK_SIZE"
      "j \<in> set (get_or (d (chunk_id e')) [])"
      unfolding index_ok_def by blast+
    then show ?thesis by (simp add: add_to_chunk_keeps)
  qed
qed

lemma index_ok_delete:
  assumes "index_ok l d"
  shows "index_ok (l(k := None)) (remove_from_chunk c k d)"
  unfolding index_ok_def
proof (intro allI impI)
  fix j e'
  assume h: "(l(k := None)) j = Some e'"
  then have jk: "j \<noteq> k" and "l j = Some e'" by (auto split: if_splits)
  with assms have "chunk_id e' = get_chunk_id (position e') CHUNK_SIZE"
      "j \<in> set (get_or (d (chunk_id e')) [])"
    unfolding index_ok_def by blast+
  then show "chunk_id e' = get_chunk_id (position e') CHUNK_SIZE \<and>
        j \<in> set (get_or (remove_from_chunk c k d (chunk_id e')) [])"
    using jk by (simp add: remove_from_chunk_keeps)
qed

lemma index_ok_move:
  assumes "index_ok l d" "chunk_id e = get_chunk_id (position e) CHUNK_SIZE"
  shows "index_ok (l(k \<mapsto> e)) (add_to_chunk (chunk_id e) k (remove_from_chunk c k d))"
  using index_ok_insert [OF index_ok_delete [OF assms(1), of k c] assms(2), of k] by simp

lemma index_ok_same:
  assumes "index_ok l d" "l k = Some e0" "chunk_id e = chunk_id e0"
    "chunk_id e = get_chunk_id (position e) CHUNK_SIZE"
  shows "index_ok (l(k \<mapsto> e)) d"
  unfolding index_ok_def
proof (intro allI impI)
  fix j e'
  assume h: "(l(k \<mapsto> e)) j = Some e'"
  show "chunk_id e' = get_chunk_id (position e') CHUNK_SIZE \<and>
        j \<in> set (get_or (d (chunk_id e')) [])"
  proof (cases "j = k")
    case True
    with h have e': "e' = e" by simp
    from assms(1,2) have "k \<in> set (get_or (d (chunk_id e0)) [])"
      unfolding index_ok_def by blast
    then show ?thesis using assms(3,4) True e' by simp
  next
    case False
    with h have "l j = Some e'" by simp
    with assms(1) show ?thesis unfolding index_ok_def by blast
  qed
qed

lemma chunk_id_update_position:
  "chunk_id (update_position x y z rot e) = get_chunk_id (position (update_position x y z rot e)) CHUNK_SIZE"
  by (simp add: update_position_def)

lemma chunk_id_new_PlayerEntity:
  "chunk_id (new_PlayerEntity k cd) = get_chunk_id (position (new_PlayerEntity k cd)) CHUNK_SIZE"
  by (simp add: new_PlayerEntity_def Let_def)

lemma chunk_id_new_NPCEntity:
  "chunk_id (new_NPCEntity k nd pos) = get_chunk_id (position (new_NPCEntity k nd pos)) CHUNK_SIZE"
  by (simp add: new_NPCEntity_def)

lemma world_index_ok_new: "world_index_ok new_WorldManager"
  by (simp add: world_index_ok_def new_WorldManager_def index_ok_def)

lemma world_index_ok_add_player:
  assumes "world_index_ok w"
  shows "world_index_ok (add_player k cd w)"
proof -
  have "index_ok ((map_of (players w))(k \<mapsto> new_PlayerEntity k cd))
          (add_to_chunk (chunk_id (new_PlayerEntity k cd)) k (player_chunks w))"
    using assms by (intro index_ok_insert chunk_id_new_PlayerEntity) (simp add: world_index_ok_def)
  then show ?thesis
    using assms by (simp add: world_index_ok_def add_player_def Let_def update_conv')
qed

lemma world_index_ok_spawn_npc:
  assumes "world_index_ok w"
  shows "world_index_ok (spawn_npc nd pos w)"
proof -
  have "index_ok ((map_of (npcs w))(next_npc_instance_id w \<mapsto>
            new_NPCEntity (next_npc_instance_id w) nd pos))
          (add_to_chunk (chunk_id (new_NPCEntity (next_npc_instance_id w) nd pos))
             (next_npc_instance_id w) (npc_chunks w))"
    using assms by (intro index_ok_insert chunk_id_new_NPCEntity) (simp add: world_index_ok_def)
  then show ?thesis
    using assms by (simp add: world_index_ok_def spawn_npc_def Let_def update_conv')
qed

lemma world_index_ok_remove_player:
  "world_index_ok w \<Longrightarrow> world_index_ok (remove_player k w)"
  by (simp add: world_index_ok_def remove_player_def delete_conv' index_ok_delete
      split: option.splits)

lemma world_index_ok_remove_npc:
  "world_index_ok w \<Longrightarrow> world_index_ok (remove_npc k w)"
  by (simp add: world_index_ok_def remove_npc_def delete_conv' index_ok_delete
      split: option.splits)

lemma world_index_ok_update_player_position:
  assumes "world_index_ok w"
  shows "world_index_ok (update_player_position k x y z rot w)"
proof (cases "map_of (players w) k")
  case None
  then show ?thesis using assms by (simp add: update_player_position_def)
next
  case (Some player)
  show ?thesis
    using assms Some
      index_ok_move [of "map_of (players w)" "player_chunks w"
        "update_position x y z rot player" k "chunk_id player"]
      index_ok_same [of "map_of (players w)" "player_chunks w" k player
        "update_position x y z rot player"]
    by (auto simp: world_index_ok_def update_player_position_def Let_def update_conv'
        chunk_id_update_position)
qed

lemma world_index_ok_update_npc_position:
  assumes "world_index_ok w"
  shows "world_index_ok (update_npc_position k x y z rot w)"
proof (cases "map_of (npcs w) k")
  case None
  then show ?thesis using assms by (simp add: update_npc_position_def)
next
  case (Some npc)
  show ?thesis
    using assms Some
      index_ok_move [of "map_of (npcs w)" "npc_chunks w"
        "update_position x y z rot npc" k "chunk_id npc"]
      index_ok_same [of "map_of (npcs w)" "npc_chunks w" k npc
        "update_position x y z rot npc"]
    by (auto simp: world_index_ok_def update_npc_position_def Let_def update_conv'
        chunk_id_update_position)
qed

lemma world_index_ok_apply:
  "world_index_ok w \<Longrightarrow> world_index_ok (apply_world_op op w)"
  by (cases op)
     (simp_all add: world_index_ok_add_player world_index_ok_remove_player
        world_index_ok_update_player_position world_index_ok_spawn_npc
        world_index_ok_remove_npc world_index_ok_update_npc_position)

lemma world_index_ok_foldl:
  "world_index_ok w \<Longrightarrow> world_index_ok (foldl (\<lambda>w op. apply_world_op op w) w ops)"
  by (induction ops arbitrary: w) (simp_all add: world_index_ok_apply)

lemma world_index_ok_run: "world_index_ok (run_world_ops ops)"
  unfolding run_world_ops_def by (rule world_index_ok_foldl [OF world_index_ok_new])

text \<open>
  Claim C1. After any sequence of \<open>add_player\<close>, \<open>remove_player\<close>,
  \<open>update_player_position\<close>, \<open>spawn_npc\<close>, \<open>remove_npc\<close> and \<open>update_npc_position\<close>
  calls on a new world, for every position and every radius \<open>r \<ge> 0\<close>, every registered
  player whose distance from the position is at most \<open>r\<close> is in the list returned by
  \<open>get_nearby_players\<close>, and every such NPC in the list returned by \<open>get_nearby_npcs\<close>:
  the ring of \<open>int(r / CHUNK_SIZE) + 1\<close> chunks, with chunk ids truncated toward zero,
  misses no entity.
\<close>

theorem nearby_no_false_negative:
  assumes "0 \<le> r"
  shows "(\<forall>k e. get_player (run_world_ops ops) k = Some e \<and>
                 calculate_distance pos (position e) \<le> r
                 \<longrightarrow> e \<in> set (get_nearby_players (run_world_ops ops) pos r)) \<and>
         (\<forall>k e. get_npc (run_world_ops ops) k = Some e \<and>
                 calculate_distance pos (position e) \<le> r
                 \<longrightarrow> e \<in> set (get_nearby_npcs (run_world_ops ops) pos r))"
  using world_index_ok_run [of ops] assms
  by (auto simp: world_index_ok_def get_player_def get_npc_def get_nearby_players_def
      get_nearby_npcs_def intro: nearby_in_member)

lemma sqrt_le_iff: "0 \<le> r \<Longrightarrow> (sqrt x \<le> r) = (x \<le> r * r)"
  by (metis abs_of_nonneg real_sqrt_abs2 real_sqrt_le_iff)

lemma calculate_distance_le:
  "0 \<le> r \<Longrightarrow> (calculate_distance (x1, y1, z1) (x2, y2, z2) \<le> r) =
     ((x1 - x2) * (x1 - x2) + (y1 - y2) * (y1 - y2) + (z1 - z2) * (z1 - z2) \<le> r * r)"
  by (simp add: calculate_distance_def Let_def sqrt_le_iff)

lemma moving_ops_player:
  "get_player (run_world_ops moving_ops) 1 =
     Some ((default_player 1)\<lparr>position := (- 30, 0, - 30), chunk_id := (0, 0)\<rparr>)"
  by (simp add: moving_ops_def run_world_ops_def add_player_def update_player_position_def
      spawn_npc_def new_default_player new_WorldManager_def get_player_def update_position_def
      default_player_def get_chunk_id_def CHUNK_SIZE_def py_int_def Let_def)

theorem nearby_no_false_negative_witness:
  "get_player (run_world_ops moving_ops) 1 =
     Some ((default_player 1)\<lparr>position := (- 30, 0, - 30), chunk_id := (0, 0)\<rparr>) \<and>
   calculate_distance (10, 0, 10) (- 30, 0, - 30) \<le> 60 \<and>
   (default_player 1)\<lparr>position := (- 30, 0, - 30), chunk_id := (0, 0)\<rparr>
     \<in> set (get_nearby_players (run_world_ops moving_ops) (10, 0, 10) 60)"
proof -
  have d: "calculate_distance (10, 0, 10) (- 30, 0, - 30) \<le> 60"
    by (simp add: calculate_distance_le)
  have p: "position ((default_player 1)\<lparr>position := (- 30, 0, - 30), chunk_id := (0, 0)\<rparr>)
             = (- 30, 0, - 30)"
    by simp
  from nearby_no_false_negative [of 60 moving_ops "(10, 0, 10)"] moving_ops_player d p
  show ?thesis by auto
qed

subsection \<open>Territory capture\<close>

lemma capture_step_geometry [simp]:
  "territory_position (capture_step now p t) = territory_position t"
  "radius (capture_step now p t) = radius t"
  by (simp_all add: capture_step_def capture_territory_def)

lemma capture_loop_geometry [simp]:
  "territory_position (capture_loop now ps t) = territory_position t"
  "radius (capture_loop now ps t) = radius t"
  by (induction ps arbitrary: t) simp_all

lemma update_territory_geometry [simp]:
  "territory_position (update_territory now w t) = territory_position t"
  "radius (update_territory now w t) = radius t"
  by (simp_all add: update_territory_def Let_def)

lemma run_ticks_geometry [simp]:
  "territory_position (run_ticks t ticks) = territory_position t"
  "radius (run_ticks t ticks) = radius t"
  by (induction ticks arbitrary: t) simp_all

lemma present_ids_geometry:
  "territory_position t' = territory_position t \<Longrightarrow> radius t' = radius t
   \<Longrightarrow> get_players_in_territory w t' = get_players_in_territory w t"
  by (simp add: get_players_in_territory_def)

lemma progress_fresh:
  "get_capture_progress (t\<lparr>capturing_player_id := Some P, capture_start_time := now\<rparr>) now = 0"
  by (simp add: get_capture_progress_def is_being_captured_def TERRITORY_CAPTURE_TIME_def)

lemma capture_loop_idle:
  assumes "capturing_player_id t = Some P" "get_capture_progress t now < 1"
  shows "capture_loop now ps t = t"
proof (induction ps)
  case Nil
  show ?case by simp
next
  case (Cons p ps)
  have "capture_step now p t = t"
    using assms by (simp add: capture_step_def is_being_captured_def)
  then show ?case using Cons by simp
qed

lemma capture_loop_from_none:
  assumes "capturing_player_id t = None"
  shows "controller_id (capture_loop now ps t) = controller_id t"
  using assms
proof (induction ps arbitrary: t)
  case Nil
  show ?case by simp
next
  case (Cons p ps)
  show ?case
  proof (cases "Some (entity_id p) = controller_id t")
    case True
    then have "capture_step now p t = t" by (simp add: capture_step_def)
    then show ?thesis using Cons by simp
  next
    case False
    let ?t1 = "t\<lparr>capturing_player_id := Some (entity_id p), capture_start_time := now\<rparr>"
    have s: "capture_step now p t = ?t1"
      using False Cons.prems by (simp add: capture_step_def is_being_captured_def)
    have "capture_loop now ps ?t1 = ?t1"
      by (rule capture_loop_idle [of _ "entity_id p"]) (simp_all add: progress_fresh)
    then show ?thesis by (simp add: s)
  qed
qed

lemma capture_loop_commit:
  assumes "controller_id (capture_loop now ps t) \<noteq> controller_id t"
  shows "\<exists>P. capturing_player_id t = Some P \<and> P \<in> entity_id ` set ps \<and>
             controller_id (capture_loop now ps t) = Some P \<and>
             TERRITORY_CAPTURE_TIME \<le> now - capture_start_time t"
  using assms
proof (induction ps arbitrary: t)
  case Nil
  then show ?case by simp
next
  case (Cons p ps)
  show ?case
  proof (cases "capture_step now p t = t")
    case True
    with Cons.prems have "controller_id (capture_loop now ps t) \<noteq> controller_id t" by simp
    from Cons.IH [OF this] show ?thesis using True by auto
  next
    case False
    from Cons.prems capture_loop_from_none [of t now "p # ps"]
    obtain P where P: "capturing_player_id t = Some P" by (cases "capturing_player_id t") auto
    from False P have p: "P = entity_id p" "Some (entity_id p) \<noteq> controller_id t"
      and prog: "1 \<le> get_capture_progress t now"
      and s: "capture_step now p t = capture_territory t (entity_id p) now"
      by (auto simp: capture_step_def is_being_captured_def split: if_splits)
    have "controller_id (capture_loop now ps (capture_territory t (entity_id p) now))
            = Some (entity_id p)"
      using capture_loop_from_none [of "capture_territory t (entity_id p) now" now ps]
      by (simp add: capture_territory_def)
    moreover have "TERRITORY_CAPTURE_TIME \<le> now - capture_start_time t"
      using prog P
      by (simp add: get_capture_progress_def is_being_captured_def TERRITORY_CAPTURE_TIME_def
          Let_def)
    ultimately show ?thesis using P p s by simp
  qed
qed

lemma capture_loop_capturing:
  assumes "capturing_player_id (capture_loop now ps t) = Some P"
  shows "(capturing_player_id t = Some P \<and>
            capture_start_time (capture_loop now ps t) = capture_start_time t) \<or>
         (P \<in> entity_id ` set ps \<and> capture_start_time (capture_loop now ps t) = now)"
  using assms
proof (induction ps arbitrary: t)
  case Nil
  then show ?case by simp
next
  case (Cons p ps)
  from Cons.IH [OF Cons.prems [simplified]]
  consider (old) "capturing_player_id (capture_step now p t) = Some P"
      "capture_start_time (capture_loop now (p # ps) t) = capture_start_time (capture_step now p t)"
    | (new) "P \<in> entity_id ` set ps" "capture_start_time (capture_loop now (p # ps) t) = now"
    by auto
  then show ?case
  proof cases
    case old
    then show ?thesis
      by (auto simp: capture_step_def capture_territory_def is_being_captured_def
          split: if_splits)
  next
    case new
    then show ?thesis by auto
  qed
qed

lemma run_ticks_snoc:
  "run_ticks t (ticks @ [tick]) = update_territory (fst tick) (snd tick) (run_ticks t ticks)"
  by (induction ticks arbitrary: t) simp_all

lemma run_ticks_take_Suc:
  "k < length ticks \<Longrightarrow>
   run_ticks t (take (Suc k) ticks)
     = update_territory (fst (ticks ! k)) (snd (ticks ! k)) (run_ticks t (take k ticks))"
  by (simp add: take_Suc_conv_app_nth run_ticks_snoc)

lemma players_in_run_ticks [simp]:
  "get_players_in_territory w (run_ticks t ticks) = get_players_in_territory w t"
  by (rule present_ids_geometry) simp_all

lemma update_territory_capturing:
  assumes "capturing_player_id (update_territory now w t) = Some P"
  shows "MIN_PLAYERS_TO_CAPTURE \<le> length (get_players_in_territory w t) \<and>
         update_territory now w t = capture_loop now (get_players_in_territory w t) t"
  using assms
  by (auto simp: update_territory_def Let_def is_being_captured_def split: if_splits)

lemma update_territory_controller:
  assumes "controller_id (update_territory now w t) \<noteq> controller_id t"
  shows "MIN_PLAYERS_TO_CAPTURE \<le> length (get_players_in_territory w t) \<and>
         update_territory now w t = capture_loop now (get_players_in_territory w t) t"
  using assms by (auto simp: update_territory_def Let_def split: if_splits)

lemma update_territory_reset:
  assumes "length (get_players_in_territory w t) < MIN_PLAYERS_TO_CAPTURE"
  shows "capturing_player_id (update_territory now w t) = None \<and>
         get_capture_progress (update_territory now w t) now' = 0 \<and>
         controller_id (update_territory now w t) = controller_id t"
  using assms
  by (auto simp: update_territory_def Let_def get_capture_progress_def is_being_captured_def)

lemma attempt_origin:
  assumes "capturing_player_id t0 = None"
  shows "i \<le> length ticks \<Longrightarrow> capturing_player_id (run_ticks t0 (take i ticks)) = Some P \<Longrightarrow>
     \<exists>j<i. P \<in> set (present_ids (snd (ticks ! j)) t0) \<and>
        capture_start_time (run_ticks t0 (take i ticks)) = fst (ticks ! j) \<and>
        capturing_player_id (run_ticks t0 (take (Suc j) ticks)) = Some P \<and>
        (\<forall>m. j \<le> m \<and> m < i \<longrightarrow>
           MIN_PLAYERS_TO_CAPTURE \<le> length (get_players_in_territory (snd (ticks ! m)) t0))"
proof (induction i)
  case 0
  then show ?case using assms by simp
next
  case (Suc i)
  let ?s = "run_ticks t0 (take i ticks)"
  let ?now = "fst (ticks ! i)" and ?w = "snd (ticks ! i)"
  have i: "i < length ticks" using Suc.prems(1) by simp
  have step: "run_ticks t0 (take (Suc i) ticks) = update_territory ?now ?w ?s"
    using i by (rule run_ticks_take_Suc)
  from Suc.prems(2) have cap: "capturing_player_id (update_territory ?now ?w ?s) = Some P"
    by (simp add: step)
  from update_territory_capturing [OF cap]
  have enough: "MIN_PLAYERS_TO_CAPTURE \<le> length (get_players_in_territory ?w t0)"
    and loop: "update_territory ?now ?w ?s = capture_loop ?now (get_players_in_territory ?w t0) ?s"
    by simp_all
  from cap capture_loop_capturing [of ?now "get_players_in_territory ?w t0" ?s P]
  consider (old) "capturing_player_id ?s = Some P"
      "capture_start_time (update_territory ?now ?w ?s) = capture_start_time ?s"
    | (new) "P \<in> entity_id ` set (get_players_in_territory ?w t0)"
      "capture_start_time (update_territory ?now ?w ?s) = ?now"
    unfolding loop by auto
  then show ?case
  proof cases
    case old
    from Suc.IH [OF _ old(1)] i obtain j where j: "j < i"
      "P \<in> set (present_ids (snd (ticks ! j)) t0)"
      "capture_start_time ?s = fst (ticks ! j)"
      "capturing_player_id (run_ticks t0 (take (Suc j) ticks)) = Some P"
      "\<forall>m. j \<le> m \<and> m < i \<longrightarrow>
           MIN_PLAYERS_TO_CAPTURE \<le> length (get_players_in_territory (snd (ticks ! m)) t0)"
      by auto
    have "\<forall>m. j \<le> m \<and> m < Suc i \<longrightarrow>
           MIN_PLAYERS_TO_CAPTURE \<le> length (get_players_in_territory (snd (ticks ! m)) t0)"
      using j(5) enough by (auto simp: less_Suc_eq)
    with j old(2) show ?thesis
      unfolding step by (intro exI [of _ j]) simp
  next
    case new
    have "\<forall>m. i \<le> m \<and> m < Suc i \<longrightarrow>
           MIN_PLAYERS_TO_CAPTURE \<le> length (get_players_in_territory (snd (ticks ! m)) t0)"
      using enough by (auto simp: less_Suc_eq)
    with new cap show ?thesis
      by (intro exI [of _ i]) (simp add: present_ids_def step)
  qed
qed

text \<open>
  Claim C2, amended. Start from a territory with no attempt in progress and run any
  ticks. If the update of tick \<open>k\<close> changes the controller, then the new controller is
  a player \<open>P\<close> who was among the living players within the radius at an earlier tick
  \<open>j\<close>, whose update recorded the attempt for \<open>P\<close>; that attempt, with start time the
  time of tick \<open>j\<close>, is still the one in progress before tick \<open>k\<close>; at least
  \<open>TERRITORY_CAPTURE_TIME\<close> seconds lie between the two ticks; \<open>P\<close> is among the living
  players within the radius at tick \<open>k\<close>; and at every tick from \<open>j\<close> to \<open>k\<close> at least
  \<open>MIN_PLAYERS_TO_CAPTURE\<close> living players (not necessarily \<open>P\<close>) were within the
  radius. And an update at which fewer than \<open>MIN_PLAYERS_TO_CAPTURE\<close> living players
  are within the radius leaves no attempt in progress, progress 0 and the controller
  unchanged.
\<close>

theorem territory_capture_rules:
  "(capturing_player_id t0 = None \<and> k < length ticks \<and>
    controller_id (run_ticks t0 (take (Suc k) ticks))
      \<noteq> controller_id (run_ticks t0 (take k ticks))
    \<longrightarrow> (\<exists>P j. j < k \<and>
           controller_id (run_ticks t0 (take (Suc k) ticks)) = Some P \<and>
           P \<in> set (present_ids (snd (ticks ! j)) t0) \<and>
           capturing_player_id (run_ticks t0 (take (Suc j) ticks)) = Some P \<and>
           capturing_player_id (run_ticks t0 (take k ticks)) = Some P \<and>
           capture_start_time (run_ticks t0 (take k ticks)) = fst (ticks ! j) \<and>
           TERRITORY_CAPTURE_TIME \<le> fst (ticks ! k) - fst (ticks ! j) \<and>
           P \<in> set (present_ids (snd (ticks ! k)) t0) \<and>
           (\<forall>m. j \<le> m \<and> m \<le> k \<longrightarrow>
              MIN_PLAYERS_TO_CAPTURE
                \<le> length (get_players_in_territory (snd (ticks ! m)) t0)))) \<and>
   (length (get_players_in_territory w t) < MIN_PLAYERS_TO_CAPTURE
    \<longrightarrow> capturing_player_id (update_territory now w t) = None \<and>
        get_capture_progress (update_territory now w t) now' = 0 \<and>
        controller_id (update_territory now w t) = controller_id t)"
proof (intro conjI impI)
  assume h: "capturing_player_id t0 = None \<and> k < length ticks \<and>
    controller_id (run_ticks t0 (take (Suc k) ticks))
      \<noteq> controller_id (run_ticks t0 (take k ticks))"
  let ?s = "run_ticks t0 (take k ticks)"
  let ?now = "fst (ticks ! k)" and ?w = "snd (ticks ! k)"
  have step: "run_ticks t0 (take (Suc k) ticks) = update_territory ?now ?w ?s"
    using h by (simp add: run_ticks_take_Suc)
  from h have ch: "controller_id (update_territory ?now ?w ?s) \<noteq> controller_id ?s"
    by (simp add: step)
  from update_territory_controller [OF ch]
  have enough: "MIN_PLAYERS_TO_CAPTURE \<le> length (get_players_in_territory ?w t0)"
    and loop: "update_territory ?now ?w ?s = capture_loop ?now (get_players_in_territory ?w t0) ?s"
    by simp_all
  from ch capture_loop_commit [of ?now "get_players_in_territory ?w t0" ?s]
  obtain P where P: "capturing_player_id ?s = Some P"
    "P \<in> entity_id ` set (get_players_in_territory ?w t0)"
    "controller_id (update_territory ?now ?w ?s) = Some P"
    "TERRITORY_CAPTURE_TIME \<le> ?now - capture_start_time ?s"
    unfolding loop by auto
  from attempt_origin [of t0 k ticks P] h P(1) obtain j where j: "j < k"
    "P \<in> set (present_ids (snd (ticks ! j)) t0)"
    "capture_start_time ?s = fst (ticks ! j)"
    "capturing_player_id (run_ticks t0 (take (Suc j) ticks)) = Some P"
    "\<forall>m. j \<le> m \<and> m < k \<longrightarrow>
         MIN_PLAYERS_TO_CAPTURE \<le> length (get_players_in_territory (snd (ticks ! m)) t0)"
    by auto
  have all: "\<forall>m. j \<le> m \<and> m \<le> k \<longrightarrow>
         MIN_PLAYERS_TO_CAPTURE \<le> length (get_players_in_territory (snd (ticks ! m)) t0)"
    using j(5) enough by (auto simp: le_less)
  show "\<exists>P j. j < k \<and>
           controller_id (run_ticks t0 (take (Suc k) ticks)) = Some P \<and>
           P \<in> set (present_ids (snd (ticks ! j)) t0) \<and>
           capturing_player_id (run_ticks t0 (take (Suc j) ticks)) = Some P \<and>
           capturing_player_id (run_ticks t0 (take k ticks)) = Some P \<and>
           capture_start_time (run_ticks t0 (take k ticks)) = fst (ticks ! j) \<and>
           TERRITORY_CAPTURE_TIME \<le> fst (ticks ! k) - fst (ticks ! j) \<and>
           P \<in> set (present_ids (snd (ticks ! k)) t0) \<and>
           (\<forall>m. j \<le> m \<and> m \<le> k \<longrightarrow>
              MIN_PLAYERS_TO_CAPTURE
                \<le> length (get_players_in_territory (snd (ticks ! m)) t0))"
    using j P all unfolding step
    by (intro exI [of _ P] exI [of _ j]) (simp add: present_ids_def)
next
  assume "length (get_players_in_territory w t) < MIN_PLAYERS_TO_CAPTURE"
  from update_territory_reset [OF this, of now now']
  show "capturing_player_id (update_territory now w t) = None"
    "get_capture_progress (update_territory now w t) now' = 0"
    "controller_id (update_territory now w t) = controller_id t"
    by simp_all
qed

lemmas world_eval =
  run_world_ops_def add_player_def update_player_position_def new_PlayerEntity_def
  new_WorldManager_def update_position_def get_all_players_def at_twin_city_def
  default_character_data_def get_or_def get_chunk_id_def CHUNK_SIZE_def py_int_def Let_def

lemma present_both:
  assumes "territory_position t = (200, 0, 200)" "radius t = 40"
  shows "map entity_id (get_players_in_territory both_present t) = [1, 2]"
  using assms
  by (simp add: get_players_in_territory_def both_present_def world_eval calculate_distance_le)

lemma present_away:
  assumes "territory_position t = (200, 0, 200)" "radius t = 40"
  shows "map entity_id (get_players_in_territory capturer_away t) = [2]"
  using assms
  by (simp add: get_players_in_territory_def capturer_away_def world_eval calculate_distance_le)


lemmas territory_eval =
  update_territory_def capture_step_def capture_territory_def is_being_captured_def
  get_capture_progress_def MIN_PLAYERS_TO_CAPTURE_def TERRITORY_CAPTURE_TIME_def Let_def

lemma tick_both:
  assumes "territory_position t = (200, 0, 200)" "radius t = 40"
  shows "\<exists>p q. entity_id p = 1 \<and> entity_id q = 2 \<and>
           update_territory now both_present t
             = capture_step now q (capture_step now p t)"
proof -
  from present_both [OF assms] obtain p q where
    "get_players_in_territory both_present t = [p, q]" "entity_id p = 1" "entity_id q = 2"
    by (auto simp: map_eq_Cons_conv)
  then show ?thesis by (auto simp: update_territory_def MIN_PLAYERS_TO_CAPTURE_def)
qed

lemma tick_away:
  assumes "territory_position t = (200, 0, 200)" "radius t = 40"
  shows "\<exists>q. entity_id q = 2 \<and> update_territory now capturer_away t = capture_step now q t"
proof -
  from present_away [OF assms] obtain q where
    "get_players_in_territory capturer_away t = [q]" "entity_id q = 2"
    by (auto simp: map_eq_Cons_conv)
  then show ?thesis by (auto simp: update_territory_def MIN_PLAYERS_TO_CAPTURE_def)
qed

lemma interrupted_after_1:
  "run_ticks twin_city [(0, both_present)]
     = twin_city\<lparr>capturing_player_id := Some 1, capture_start_time := 0\<rparr>"
proof -
  from tick_both [of twin_city 0] obtain p q where
    "entity_id p = 1" "entity_id q = 2"
    "update_territory 0 both_present twin_city = capture_step 0 q (capture_step 0 p twin_city)"
    by (auto simp: twin_city_def)
  then show ?thesis
    by (simp add: territory_eval twin_city_def)
qed

lemma interrupted_after_2:
  "run_ticks twin_city [(0, both_present), (10, capturer_away)]
     = twin_city\<lparr>capturing_player_id := Some 1, capture_start_time := 0\<rparr>"
proof -
  let ?s = "twin_city\<lparr>capturing_player_id := Some 1, capture_start_time := 0\<rparr>"
  from tick_away [of ?s 10] obtain q where
    "entity_id q = 2" "update_territory 10 capturer_away ?s = capture_step 10 q ?s"
    by (auto simp: twin_city_def)
  then have "update_territory 10 capturer_away ?s = ?s"
    by (simp add: territory_eval twin_city_def)
  moreover have "run_ticks twin_city [(0, both_present), (10, capturer_away)]
      = update_territory 10 capturer_away (run_ticks twin_city [(0, both_present)])"
    by simp
  ultimately show ?thesis by (simp only: interrupted_after_1)
qed

lemma interrupted_after_3:
  "run_ticks twin_city [(0, both_present), (10, capturer_away), (61, both_present)]
     = twin_city\<lparr>controller_id := Some 1, capture_points := 750, last_capture_time := 61,
                 capturing_player_id := Some 2, capture_start_time := 61\<rparr>"
proof -
  let ?s = "twin_city\<lparr>capturing_player_id := Some 1, capture_start_time := 0\<rparr>"
  from tick_both [of ?s 61] obtain p q where
    "entity_id p = 1" "entity_id q = 2"
    "update_territory 61 both_present ?s = capture_step 61 q (capture_step 61 p ?s)"
    by (auto simp: twin_city_def)
  then have "update_territory 61 both_present ?s
      = twin_city\<lparr>controller_id := Some 1, capture_points := 750, last_capture_time := 61,
                 capturing_player_id := Some 2, capture_start_time := 61\<rparr>"
    by (simp add: territory_eval twin_city_def)
  moreover have "run_ticks twin_city [(0, both_present), (10, capturer_away), (61, both_present)]
      = update_territory 61 both_present
          (run_ticks twin_city [(0, both_present), (10, capturer_away)])"
    by simp
  ultimately show ?thesis by (simp only: interrupted_after_2)
qed

lemma interrupted_prefixes:
  "take 2 interrupted_ticks = [(0, both_present), (10, capturer_away)]"
  "take 3 interrupted_ticks = [(0, both_present), (10, capturer_away), (61, both_present)]"
  "take (Suc 2) interrupted_ticks = [(0, both_present), (10, capturer_away), (61, both_present)]"
  "take (Suc 0) interrupted_ticks = [(0, both_present)]"
  "take (Suc (Suc 0)) interrupted_ticks = [(0, both_present), (10, capturer_away)]"
  by (simp_all add: interrupted_ticks_def)

text \<open>
  Claim C2 as stated fails: the capturing player need not be present at every tick
  between the start and the commit. Player 1 starts the capture of Twin City at time
  0, is away at time 10 while player 2 stays (so the count of living players within
  the radius never drops below the minimum and the attempt is kept), comes back at
  time 61, and the update of that tick makes player 1 the controller.
\<close>

theorem capturer_absent_counterexample:
  "capturing_player_id twin_city = None \<and>
   controller_id (run_ticks twin_city (take 2 interrupted_ticks)) = None \<and>
   controller_id (run_ticks twin_city (take 3 interrupted_ticks)) = Some 1 \<and>
   present_ids (snd (interrupted_ticks ! 0)) twin_city = [1, 2] \<and>
   present_ids (snd (interrupted_ticks ! 1)) twin_city = [2] \<and>
   present_ids (snd (interrupted_ticks ! 2)) twin_city = [1, 2]"
proof -
  have g: "territory_position twin_city = (200, 0, 200)" "radius twin_city = 40"
    "capturing_player_id twin_city = None" "controller_id twin_city = None"
    by (simp_all add: twin_city_def)
  have n: "snd (interrupted_ticks ! 0) = both_present" "snd (interrupted_ticks ! 1) = capturer_away"
    "snd (interrupted_ticks ! 2) = both_present"
    by (simp_all add: interrupted_ticks_def)
  show ?thesis
    unfolding interrupted_prefixes interrupted_after_2 interrupted_after_3 n present_ids_def
    using present_both [OF g(1,2)] present_away [OF g(1,2)] g(3,4) by simp
qed


theorem territory_capture_rules_witness:
  "(\<exists>P j. j < 2 \<and>
      controller_id (run_ticks twin_city (take (Suc 2) interrupted_ticks)) = Some P \<and>
      P \<in> set (present_ids (snd (interrupted_ticks ! j)) twin_city) \<and>
      capture_start_time (run_ticks twin_city (take 2 interrupted_ticks))
        = fst (interrupted_ticks ! j) \<and>
      TERRITORY_CAPTURE_TIME \<le> fst (interrupted_ticks ! 2) - fst (interrupted_ticks ! j) \<and>
      P \<in> set (present_ids (snd (interrupted_ticks ! 2)) twin_city)) \<and>
   capturing_player_id
     (update_territory 20 new_WorldManager
        (twin_city\<lparr>capturing_player_id := Some 1, capture_start_time := 0\<rparr>)) = None \<and>
   get_capture_progress
     (update_territory 20 new_WorldManager
        (twin_city\<lparr>capturing_player_id := Some 1, capture_start_time := 0\<rparr>)) 20 = 0"
proof -
  have h1: "capturing_player_id twin_city = None \<and> 2 < length interrupted_ticks \<and>
      controller_id (run_ticks twin_city (take (Suc 2) interrupted_ticks))
        \<noteq> controller_id (run_ticks twin_city (take 2 interrupted_ticks))"
    unfolding interrupted_prefixes interrupted_after_2 interrupted_after_3
    by (simp add: twin_city_def interrupted_ticks_def)
  have h2: "length (get_players_in_territory new_WorldManager
               (twin_city\<lparr>capturing_player_id := Some 1, capture_start_time := 0\<rparr>))
             < MIN_PLAYERS_TO_CAPTURE"
    by (simp add: get_players_in_territory_def get_all_players_def new_WorldManager_def
        MIN_PLAYERS_TO_CAPTURE_def)
  from territory_capture_rules [of twin_city 2 interrupted_ticks new_WorldManager
      "twin_city\<lparr>capturing_player_id := Some 1, capture_start_time := 0\<rparr>" 20 20] h1 h2
  show ?thesis by blast
qed

end
